theory Spec2Isabelle
  imports Complex_Main
begin

section \<open>Data model\<close>

text \<open>
  Modelled from the spec: the records \<^verbatim>\<open>Alien\<close> and \<^verbatim>\<open>Loot\<close> and the fields
  \<^verbatim>\<open>size\<close> and \<^verbatim>\<open>text\<close> of \<^verbatim>\<open>Particle\<close>, whose declarations are not among the
  sources. They have the fields that the data model of the specification lists, under
  the names and in the order in which the object literals of the code build them. The
  other types (\<^verbatim>\<open>MineralType\<close>, \<^verbatim>\<open>ShipConfig\<close>, \<^verbatim>\<open>Point\<close>, \<^verbatim>\<open>PlayerState\<close>,
  \<^verbatim>\<open>Asteroid\<close>, \<^verbatim>\<open>Particle\<close>) are declared in \<^verbatim>\<open>types.ts\<close>, which is among the
  sources in a version older than the canvas component, from before the alien and the
  loot. Everything else in this theory is translated from the code.

  Every \<^verbatim>\<open>number\<close> of the source is an IEEE double. The embedding reads them as exact
  numbers: a \<^typ>\<open>real\<close>, except for the quantities that are whole by construction, which
  are \<^typ>\<open>int\<close>. These are the cargo counts, the stolen counts and the loot amounts (a
  count starts at 0 and changes only by one unit or by a loot amount, which is a
  \<^verbatim>\<open>Math.floor\<close>) and the drain timer. Rounding of doubles is not modelled.

  The vertices of an asteroid, which only the renderer reads, and the ids of loot and
  alien, which are built from the clock, are left out; the id \<^verbatim>\<open>ast-i\<close> of an asteroid
  is the number \<open>i\<close>. Sound is not modelled.
\<close>

datatype MineralType = IRON | SILICON | GOLD | KRONOS

record ShipConfig =
  maxFuel :: real
  fuelConsumptionRate :: real
  thrustConsumptionRate :: real
  maxCargo :: real
  acceleration :: real
  maxSpeed :: real
  rotationSpeed :: real
  miningPower :: real
  miningRange :: real

record Point =
  x :: real
  y :: real

record PlayerState =
  credits :: real
  currentFuel :: real
  cargo :: "MineralType \<Rightarrow> int"
  shipConfig :: ShipConfig
  position :: Point
  velocity :: Point
  rotation :: real

text \<open>
  The cargo object is built in \<^verbatim>\<open>App.tsx\<close> with the four keys in this order, and no
  key is ever added or deleted, so \<^verbatim>\<open>Object.keys(cargo)\<close> is this list and
  \<^verbatim>\<open>Object.values(cargo)\<close> is the list of the four counts.
\<close>

definition cargoKeys :: "MineralType list" where
  "cargoKeys = [IRON, SILICON, GOLD, KRONOS]"

definition cargoTotal :: "(MineralType \<Rightarrow> int) \<Rightarrow> int" where
  "cargoTotal c = fold (\<lambda>t a. a + c t) cargoKeys 0"

section \<open>Constants (constants.ts)\<close>

definition INITIAL_SHIP_CONFIG :: ShipConfig where
  "INITIAL_SHIP_CONFIG =
     \<lparr> maxFuel = 1000, fuelConsumptionRate = 0.05, thrustConsumptionRate = 0.5,
       maxCargo = 20, acceleration = 0.15, maxSpeed = 8, rotationSpeed = 0.08,
       miningPower = 1.5, miningRange = 350 \<rparr>"

definition DOCKING_RANGE :: real where "DOCKING_RANGE = 200"
definition LOOT_COLLECTION_RANGE :: real where "LOOT_COLLECTION_RANGE = 60"
definition LOOT_DESPAWN_TIME :: real where "LOOT_DESPAWN_TIME = 1800"

definition ALIEN_SPAWN_RATE :: real where "ALIEN_SPAWN_RATE = 0.001"
definition ALIEN_HP :: real where "ALIEN_HP = 300"
definition ALIEN_SPEED :: real where "ALIEN_SPEED = 3.0"
definition ALIEN_DRAIN_RANGE :: real where "ALIEN_DRAIN_RANGE = 300"
definition ALIEN_DRAIN_INTERVAL :: int where "ALIEN_DRAIN_INTERVAL = 45"

fun MINERAL_VALUES :: "MineralType \<Rightarrow> int" where
  "MINERAL_VALUES IRON = 10"
| "MINERAL_VALUES SILICON = 25"
| "MINERAL_VALUES GOLD = 100"
| "MINERAL_VALUES KRONOS = 500"

section \<open>Station operations (StationInterface.tsx)\<close>

text \<open>
  Each handler reads the state of the current render and queues one functional update
  of that same state; the model applies the update to the state the handler read.
\<close>

definition sellAll :: "PlayerState \<Rightarrow> PlayerState" where
  "sellAll playerState =
     (let (totalValue, newCargo) =
            fold (\<lambda>type (tv, nc). (tv + nc type * MINERAL_VALUES type, nc(type := 0)))
                 cargoKeys (0, cargo playerState)
      in playerState
           \<lparr> credits := credits playerState + of_int totalValue,
             currentFuel := maxFuel (shipConfig playerState),
             cargo := newCargo \<rparr>)"

definition refuel :: "PlayerState \<Rightarrow> PlayerState" where
  "refuel playerState =
     (let fuelNeeded = maxFuel (shipConfig playerState) - currentFuel playerState;
          cost = \<lceil>fuelNeeded * 0.1\<rceil>
      in if credits playerState \<ge> of_int cost
         then playerState
                \<lparr> credits := credits playerState - of_int cost,
                  currentFuel := maxFuel (shipConfig playerState) \<rparr>
         else (let fuelAffordable = \<lfloor>credits playerState / 0.1\<rfloor>
               in playerState
                    \<lparr> credits := 0,
                      currentFuel := currentFuel playerState + of_int fuelAffordable \<rparr>))"

datatype StatKey =
  K_maxFuel | K_fuelConsumptionRate | K_thrustConsumptionRate | K_maxCargo
| K_acceleration | K_maxSpeed | K_rotationSpeed | K_miningPower | K_miningRange

fun getStat :: "ShipConfig \<Rightarrow> StatKey \<Rightarrow> real" where
  "getStat c K_maxFuel = maxFuel c"
| "getStat c K_fuelConsumptionRate = fuelConsumptionRate c"
| "getStat c K_thrustConsumptionRate = thrustConsumptionRate c"
| "getStat c K_maxCargo = maxCargo c"
| "getStat c K_acceleration = acceleration c"
| "getStat c K_maxSpeed = maxSpeed c"
| "getStat c K_rotationSpeed = rotationSpeed c"
| "getStat c K_miningPower = miningPower c"
| "getStat c K_miningRange = miningRange c"

fun setStat :: "ShipConfig \<Rightarrow> StatKey \<Rightarrow> real \<Rightarrow> ShipConfig" where
  "setStat c K_maxFuel v = c\<lparr>maxFuel := v\<rparr>"
| "setStat c K_fuelConsumptionRate v = c\<lparr>fuelConsumptionRate := v\<rparr>"
| "setStat c K_thrustConsumptionRate v = c\<lparr>thrustConsumptionRate := v\<rparr>"
| "setStat c K_maxCargo v = c\<lparr>maxCargo := v\<rparr>"
| "setStat c K_acceleration v = c\<lparr>acceleration := v\<rparr>"
| "setStat c K_maxSpeed v = c\<lparr>maxSpeed := v\<rparr>"
| "setStat c K_rotationSpeed v = c\<lparr>rotationSpeed := v\<rparr>"
| "setStat c K_miningPower v = c\<lparr>miningPower := v\<rparr>"
| "setStat c K_miningRange v = c\<lparr>miningRange := v\<rparr>"

definition upgradeStat :: "StatKey \<Rightarrow> real \<Rightarrow> real \<Rightarrow> PlayerState \<Rightarrow> PlayerState" where
  "upgradeStat statKey step cost playerState =
     (if credits playerState \<ge> cost
      then playerState
             \<lparr> credits := credits playerState - cost,
               shipConfig := setStat (shipConfig playerState) statKey
                               (getStat (shipConfig playerState) statKey + step) \<rparr>
      else playerState)"

section \<open>Starting and launching (App.tsx)\<close>

definition STATION_POSITION :: Point where
  "STATION_POSITION = \<lparr> x = 0, y = 0 \<rparr>"

definition initialPlayerState :: PlayerState where
  "initialPlayerState =
     \<lparr> credits = 0,
       currentFuel = maxFuel INITIAL_SHIP_CONFIG,
       cargo = (\<lambda>t. 0),
       shipConfig = INITIAL_SHIP_CONFIG,
       position = \<lparr> x = x STATION_POSITION + 100, y = y STATION_POSITION + 100 \<rparr>,
       velocity = \<lparr> x = 0, y = 0 \<rparr>,
       rotation = - pi / 2 \<rparr>"

definition handleLaunch :: "PlayerState \<Rightarrow> PlayerState" where
  "handleLaunch prev =
     prev\<lparr> position := \<lparr> x = x STATION_POSITION, y = y STATION_POSITION + 220 \<rparr>,
           velocity := \<lparr> x = 0, y = 1 \<rparr> \<rparr>"

section \<open>The mission world (GameCanvas.tsx)\<close>

text \<open>
  The canvas component keeps the mission in mutable cells that the frame callback
  \<^verbatim>\<open>loop\<close> reads and writes. The model collects them in one record and passes it
  through the blocks of the callback in the order of the source. Line numbers are those
  of the source file of the component that has the alien (\<^verbatim>\<open>unnamed/part_002\<close>).
\<close>

record Body = Point +
  vx :: real
  vy :: real

record Asteroid = Body +
  ast_id :: nat
  radius :: real
  ast_type :: MineralType
  health :: real
  maxHealth :: real
  ast_rotation :: real
  ast_rotationSpeed :: real
  isHeating :: bool

datatype AlienState = CHASING | DRAINING

text \<open>
  \<^verbatim>\<open>stolenCargo\<close> starts as the empty object and gets a key the first time a mineral of
  that type is stolen; an association list keeps the order in which the keys were added.
\<close>

record Alien = Body +
  hp :: real
  maxHp :: real
  stolenCargo :: "(MineralType \<times> int) list"
  state :: AlienState
  drainTimer :: int
  wobbleAngle :: real

record Transient = Body +
  life :: real

record Loot = Transient +
  loot_type :: MineralType
  amount :: int

datatype PText = TextStolen MineralType | TextCollected int MineralType | TextCargoFull

record Particle = Transient +
  maxLife :: real
  color :: string
  psize :: real
  ptext :: "PText option"

record World =
  ship :: PlayerState
  asteroids :: "Asteroid list"
  alien :: "Alien option"
  particles :: "Particle list"
  loot :: "Loot list"
  shake :: real
  camera :: Point

text \<open>
  What a frame samples from outside: the keys held, the mouse, the size of the canvas and
  the values \<^verbatim>\<open>Math.random()\<close> returns. \<open>random inp site k j\<close> is the draw of the
  \<open>j\<close>-th call in iteration \<open>k\<close> of the block \<open>site\<close>; each lies in \<open>[0, 1)\<close>.
\<close>

datatype Site =
  Thrust | Spawn | Steal | AlienSpark | AlienDrop | AlienBoom
| Spark | Drop | Chunk | Dust | Full

record Input =
  keys :: "string \<Rightarrow> bool"
  mouseX :: real
  mouseY :: real
  isDown :: bool
  width :: real
  height :: real
  random :: "Site \<Rightarrow> nat \<Rightarrow> nat \<Rightarrow> real"

datatype Signal = OnGameOver | OnDock PlayerState

fun MINERAL_COLORS :: "MineralType \<Rightarrow> string" where
  "MINERAL_COLORS IRON = ''#a3a3a3''"
| "MINERAL_COLORS SILICON = ''#60a5fa''"
| "MINERAL_COLORS GOLD = ''#fbbf24''"
| "MINERAL_COLORS KRONOS = ''#d946ef''"

definition ALIEN_COLOR_BODY :: string where "ALIEN_COLOR_BODY = ''#a855f7''"
definition ALIEN_COLOR_LIGHTS :: string where "ALIEN_COLOR_LIGHTS = ''#22c55e''"

subsection \<open>Ship physics\<close>

definition shakeDecay :: "World \<Rightarrow> World" where
  "shakeDecay w =
     (if shake w > 0
      then (let s = shake w * 0.9 in w\<lparr>shake := (if s < 0.5 then 0 else s)\<rparr>)
      else w)"

definition applyRotation :: "Input \<Rightarrow> PlayerState \<Rightarrow> PlayerState" where
  "applyRotation inp s =
     (let s1 = (if keys inp ''KeyA'' \<or> keys inp ''ArrowLeft''
                then s\<lparr>rotation := rotation s - rotationSpeed (shipConfig s)\<rparr> else s)
      in if keys inp ''KeyD'' \<or> keys inp ''ArrowRight''
         then s1\<lparr>rotation := rotation s1 + rotationSpeed (shipConfig s1)\<rparr> else s1)"

definition isThrusting :: "Input \<Rightarrow> bool" where
  "isThrusting inp = (keys inp ''KeyW'' \<or> keys inp ''ArrowUp'')"

definition applyThrust :: "Input \<Rightarrow> World \<Rightarrow> World" where
  "applyThrust inp w =
     (let s = ship w in
      if isThrusting inp \<and> currentFuel s > 0
      then (let v = \<lparr> x = x (velocity s) + cos (rotation s) * acceleration (shipConfig s),
                      y = y (velocity s) + sin (rotation s) * acceleration (shipConfig s) \<rparr>;
                s' = s\<lparr> velocity := v,
                       currentFuel := currentFuel s - thrustConsumptionRate (shipConfig s) \<rparr>;
                exhaustOffset = 22;
                p = \<lparr> x = x (position s) - cos (rotation s) * exhaustOffset,
                      y = y (position s) - sin (rotation s) * exhaustOffset,
                      vx = x v - cos (rotation s) * 3 + (random inp Thrust 0 0 - 0.5),
                      vy = y v - sin (rotation s) * 3 + (random inp Thrust 0 1 - 0.5),
                      life = 20, maxLife = 20, color = ''#fbbf24'', psize = 2, ptext = None \<rparr>
            in w\<lparr> ship := s', particles := particles w @ [p] \<rparr>)
      else w)"

definition applyDrag :: "PlayerState \<Rightarrow> PlayerState" where
  "applyDrag s = s\<lparr> velocity := \<lparr> x = x (velocity s) * 0.99, y = y (velocity s) * 0.99 \<rparr> \<rparr>"

definition speedOf :: "PlayerState \<Rightarrow> real" where
  "speedOf s = sqrt ((x (velocity s))\<^sup>2 + (y (velocity s))\<^sup>2)"

definition capSpeed :: "real \<Rightarrow> PlayerState \<Rightarrow> PlayerState" where
  "capSpeed speed s =
     (if speed > maxSpeed (shipConfig s)
      then s\<lparr> velocity := \<lparr> x = (x (velocity s) / speed) * maxSpeed (shipConfig s),
                            y = (y (velocity s) / speed) * maxSpeed (shipConfig s) \<rparr> \<rparr>
      else s)"

definition updatePosition :: "PlayerState \<Rightarrow> PlayerState" where
  "updatePosition s =
     s\<lparr> position := \<lparr> x = x (position s) + x (velocity s),
                       y = y (position s) + y (velocity s) \<rparr> \<rparr>"

text \<open>
  Lines 230 to 284: shake decay, rotation, thrust, drag, speed cap, position. The value
  \<^verbatim>\<open>speed\<close> is computed after the drag and before the cap, and the docking gate at the
  end of the frame reads that same value.
\<close>

definition physics :: "Input \<Rightarrow> World \<Rightarrow> real \<times> World" where
  "physics inp w0 =
     (let w1 = shakeDecay w0;
          w2 = w1\<lparr> ship := applyRotation inp (ship w1) \<rparr>;
          w3 = applyThrust inp w2;
          s4 = applyDrag (ship w3);
          speed = speedOf s4
      in (speed, w3\<lparr> ship := updatePosition (capSpeed speed s4) \<rparr>))"

definition idleFuel :: "PlayerState \<Rightarrow> PlayerState" where
  "idleFuel s =
     (if currentFuel s > 0
      then s\<lparr> currentFuel := currentFuel s - fuelConsumptionRate (shipConfig s) \<rparr>
      else s)"

definition gameOverCheck :: "PlayerState \<Rightarrow> bool" where
  "gameOverCheck s =
     (\<not> currentFuel s > 0 \<and> \<bar>x (velocity s)\<bar> < 0.1 \<and> \<bar>y (velocity s)\<bar> < 0.1)"

definition cameraFollow :: "Input \<Rightarrow> World \<Rightarrow> World" where
  "cameraFollow inp w =
     w\<lparr> camera := \<lparr> x = x (position (ship w)) - width inp / 2,
                     y = y (position (ship w)) - height inp / 2 \<rparr> \<rparr>"

subsection \<open>Alien\<close>

text \<open>\<^verbatim>\<open>Math.atan2(y, x)\<close>, without the distinction of signed zeros.\<close>

definition atan2 :: "real \<Rightarrow> real \<Rightarrow> real" where
  "atan2 b a =
     (if a > 0 then arctan (b / a)
      else if a < 0 then (if b \<ge> 0 then arctan (b / a) + pi else arctan (b / a) - pi)
      else if b > 0 then pi / 2
      else if b < 0 then - pi / 2
      else 0)"

definition spawnAlien :: "Input \<Rightarrow> World \<Rightarrow> World" where
  "spawnAlien inp w =
     (case alien w of
        Some a \<Rightarrow> w
      | None \<Rightarrow>
          if random inp Spawn 0 0 < ALIEN_SPAWN_RATE
          then (let angle = random inp Spawn 0 1 * pi * 2;
                    distance = max (width inp) (height inp) * 1.2
                in w\<lparr> alien := Some
                       \<lparr> x = x (position (ship w)) + cos angle * distance,
                         y = y (position (ship w)) + sin angle * distance,
                         vx = 0, vy = 0,
                         hp = ALIEN_HP, maxHp = ALIEN_HP,
                         stolenCargo = [],
                         state = CHASING,
                         drainTimer = 0,
                         wobbleAngle = 0 \<rparr> \<rparr>)
          else w)"

text \<open>\<^verbatim>\<open>obj[k] || 0\<close> and \<^verbatim>\<open>obj[k] = v\<close> on the stolen-cargo object.\<close>

definition stolenCount :: "(MineralType \<times> int) list \<Rightarrow> MineralType \<Rightarrow> int" where
  "stolenCount sc t = (case map_of sc t of None \<Rightarrow> 0 | Some n \<Rightarrow> n)"

fun setStolen :: "(MineralType \<times> int) list \<Rightarrow> MineralType \<Rightarrow> int \<Rightarrow> (MineralType \<times> int) list" where
  "setStolen [] t v = [(t, v)]"
| "setStolen ((k, n) # sc) t v = (if k = t then (k, v) # sc else (k, n) # setStolen sc t v)"

text \<open>
  Lines 360 to 389. \<open>distance\<close> (\<^verbatim>\<open>dist\<close> in the source) is the value computed
  before the alien moved. The timer is reset on both branches of the inner test. The
  index into \<^verbatim>\<open>availableTypes\<close> is within the array for every draw in \<open>[0, 1)\<close>.
\<close>

definition vampiricDrain ::
  "Input \<Rightarrow> real \<Rightarrow> Alien \<Rightarrow> PlayerState \<Rightarrow> Particle list \<Rightarrow> Alien \<times> PlayerState \<times> Particle list" where
  "vampiricDrain inp distance alien0 s ps =
     (if state alien0 = DRAINING \<and> distance < ALIEN_DRAIN_RANGE
      then (let alien1 = alien0\<lparr> drainTimer := drainTimer alien0 + 1 \<rparr> in
            if drainTimer alien1 \<ge> ALIEN_DRAIN_INTERVAL
            then (let availableTypes = filter (\<lambda>t. cargo s t > 0) cargoKeys
                  in if length availableTypes > 0
                     then (let typeToSteal =
                                 availableTypes !
                                   nat \<lfloor>random inp Steal 0 0 * real (length availableTypes)\<rfloor>
                           in (alien1\<lparr> stolenCargo :=
                                         setStolen (stolenCargo alien1) typeToSteal
                                           (stolenCount (stolenCargo alien1) typeToSteal + 1),
                                       drainTimer := 0 \<rparr>,
                               s\<lparr> cargo := (cargo s)(typeToSteal := cargo s typeToSteal - 1) \<rparr>,
                               ps @ [\<lparr> x = x (position s), y = y (position s) - 20,
                                       vx = 0, vy = -1, life = 60, maxLife = 60,
                                       color = ''#ef4444'', psize = 0,
                                       ptext = Some (TextStolen typeToSteal) \<rparr>]))
                     else (alien1\<lparr> drainTimer := 0 \<rparr>, s, ps))
            else (alien1, s, ps))
      else (alien0, s, ps))"

text \<open>Lines 329 to 357: the alien's distance to the ship, and its movement.\<close>

definition alienDistance :: "PlayerState \<Rightarrow> Alien \<Rightarrow> real" where
  "alienDistance s alien0 =
     (let dx = x (position s) - x alien0;
          dy = y (position s) - y alien0
      in sqrt (dx * dx + dy * dy))"

definition moveAlien :: "PlayerState \<Rightarrow> Alien \<Rightarrow> Alien" where
  "moveAlien s alien0 =
     (let dx = x (position s) - x alien0;
          dy = y (position s) - y alien0;
          distance = sqrt (dx * dx + dy * dy);
          a1 = alien0\<lparr> wobbleAngle := wobbleAngle alien0 + 0.1 \<rparr>;
          a2 = (if distance > ALIEN_DRAIN_RANGE * 0.7
                then (let angle = atan2 dy dx
                      in a1\<lparr> vx := vx a1 + cos angle * 0.1,
                             vy := vy a1 + sin angle * 0.1,
                             state := CHASING \<rparr>)
                else a1\<lparr> vx := vx a1 * 0.95, vy := vy a1 * 0.95, state := DRAINING \<rparr>);
          alienSpeed = sqrt ((vx a2)\<^sup>2 + (vy a2)\<^sup>2);
          a3 = (if alienSpeed > ALIEN_SPEED
                then a2\<lparr> vx := (vx a2 / alienSpeed) * ALIEN_SPEED,
                         vy := (vy a2 / alienSpeed) * ALIEN_SPEED \<rparr>
                else a2)
      in a3\<lparr> x := x a3 + vx a3, y := y a3 + vy a3 \<rparr>)"

text \<open>Lines 327 to 390.\<close>

definition updateAlien :: "Input \<Rightarrow> World \<Rightarrow> World" where
  "updateAlien inp w =
     (case alien w of
        None \<Rightarrow> w
      | Some alien0 \<Rightarrow>
          (let (a, s', ps') =
                 vampiricDrain inp (alienDistance (ship w) alien0) (moveAlien (ship w) alien0)
                   (ship w) (particles w)
           in w\<lparr> alien := Some a, ship := s', particles := ps' \<rparr>))"

subsection \<open>Mining and combat\<close>

definition worldMouseX :: "Input \<Rightarrow> World \<Rightarrow> real" where
  "worldMouseX inp w = mouseX inp + x (camera w)"

definition worldMouseY :: "Input \<Rightarrow> World \<Rightarrow> real" where
  "worldMouseY inp w = mouseY inp + y (camera w)"

text \<open>The aim-assist test of line 421, for an alien \<open>a\<close>.\<close>

definition aimAssist :: "Input \<Rightarrow> World \<Rightarrow> Alien \<Rightarrow> bool" where
  "aimAssist inp w a =
     (let noseOffset = 30;
          lx = x (position (ship w)) + cos (rotation (ship w)) * noseOffset;
          ly = y (position (ship w)) + sin (rotation (ship w)) * noseOffset;
          ax = x a - lx;
          ay = y a - ly;
          alienDist = sqrt (ax * ax + ay * ay);
          mouseDx = worldMouseX inp w - x a;
          mouseDy = worldMouseY inp w - y a;
          mouseDist = sqrt (mouseDx * mouseDx + mouseDy * mouseDy)
      in mouseDist < 50 \<and> alienDist < miningRange (shipConfig (ship w)))"

text \<open>
  The loot an alien drops: one item for each key of its stolen cargo whose amount is
  positive, in the order of the keys.
\<close>

definition alienDrops :: "Input \<Rightarrow> Alien \<Rightarrow> Loot list" where
  "alienDrops inp a =
     concat (map (\<lambda>(k, type).
                    (let amount = stolenCount (stolenCargo a) type
                     in if amount > 0
                        then [\<lparr> x = x a, y = y a,
                                vx = (random inp AlienDrop k 0 - 0.5) * 3,
                                vy = (random inp AlienDrop k 1 - 0.5) * 3,
                                life = LOOT_DESPAWN_TIME,
                                loot_type = type, amount = amount \<rparr>]
                        else []))
                 (enumerate 0 (map fst (stolenCargo a))))"

definition alienBoom :: "Input \<Rightarrow> Alien \<Rightarrow> nat \<Rightarrow> Particle" where
  "alienBoom inp a k =
     \<lparr> x = x a, y = y a,
       vx = (random inp AlienBoom k 0 - 0.5) * 8,
       vy = (random inp AlienBoom k 1 - 0.5) * 8,
       life = 40 + random inp AlienBoom k 2 * 30,
       maxLife = 70,
       color = (if random inp AlienBoom k 3 > 0.5 then ALIEN_COLOR_BODY else ALIEN_COLOR_LIGHTS),
       psize = 2 + random inp AlienBoom k 4 * 3,
       ptext = None \<rparr>"

text \<open>Lines 430 to 441: the spark of a hit on the alien, drawn with probability one half.\<close>

definition alienSparks :: "Input \<Rightarrow> Alien \<Rightarrow> Particle list" where
  "alienSparks inp a =
     (if random inp AlienSpark 0 0 > 0.5
      then [\<lparr> x = x a + (random inp AlienSpark 0 1 - 0.5) * 30,
              y = y a + (random inp AlienSpark 0 2 - 0.5) * 30,
              vx = (random inp AlienSpark 0 3 - 0.5) * 5,
              vy = (random inp AlienSpark 0 4 - 0.5) * 5,
              life = 20, maxLife = 20,
              color = ALIEN_COLOR_LIGHTS, psize = 2, ptext = None \<rparr>]
      else [])"

text \<open>Lines 422 to 482: the alien \<open>alien0\<close> passed the aim-assist test and is hit.\<close>

definition hitAlien :: "Input \<Rightarrow> Alien \<Rightarrow> World \<Rightarrow> World" where
  "hitAlien inp alien0 w =
     (let s = ship w;
          a = alien0\<lparr> hp := hp alien0 - miningPower (shipConfig s) \<rparr>;
          s' = s\<lparr> currentFuel := currentFuel s - thrustConsumptionRate (shipConfig s) * 0.5 \<rparr>;
          ps = particles w @ alienSparks inp a
      in if hp a \<le> 0
         then w\<lparr> ship := s', shake := 20,
                 loot := loot w @ alienDrops inp a,
                 particles := ps @ map (alienBoom inp a) [0..<30],
                 alien := None \<rparr>
         else w\<lparr> ship := s', shake := max (shake w) 2, particles := ps, alien := Some a \<rparr>)"

text \<open>
  Lines 408 to 484, entered with the mouse button down and fuel left. The result says
  whether the alien was attacked.
\<close>

definition attackAlien :: "Input \<Rightarrow> World \<Rightarrow> bool \<times> World" where
  "attackAlien inp w =
     (case alien w of
        None \<Rightarrow> (False, w)
      | Some alien0 \<Rightarrow>
          if aimAssist inp w alien0 then (True, hitAlien inp alien0 w) else (False, w))"

text \<open>The two tests of lines 489 to 494 on one asteroid.\<close>

definition canMine :: "real \<Rightarrow> real \<Rightarrow> PlayerState \<Rightarrow> Asteroid \<Rightarrow> bool" where
  "canMine wmx wmy s ast =
     (let dx = wmx - x ast; dy = wmy - y ast
      in dx * dx + dy * dy < radius ast * radius ast \<and>
         sqrt ((x ast - x (position s))\<^sup>2 + (y ast - y (position s))\<^sup>2)
           \<le> miningRange (shipConfig s))"

text \<open>
  The \<^verbatim>\<open>for ... of\<close> loop with its \<^verbatim>\<open>break\<close>. The source keeps a reference to the
  asteroid object; the model keeps its position in the array, which identifies it.
\<close>

fun findTarget :: "real \<Rightarrow> real \<Rightarrow> PlayerState \<Rightarrow> Asteroid list \<Rightarrow> nat option" where
  "findTarget wmx wmy s [] = None"
| "findTarget wmx wmy s (ast # rest) =
     (if canMine wmx wmy s ast then Some 0
      else map_option Suc (findTarget wmx wmy s rest))"

text \<open>Lines 396 to 501: \<open>(attackingAlien, miningTarget, world)\<close>.\<close>

definition combat :: "Input \<Rightarrow> World \<Rightarrow> bool \<times> nat option \<times> World" where
  "combat inp w =
     (if isDown inp \<and> currentFuel (ship w) > 0
      then (let (attackingAlien, w1) = attackAlien inp w
            in if \<not> attackingAlien
               then (False,
                     findTarget (worldMouseX inp w) (worldMouseY inp w) (ship w1) (asteroids w1),
                     w1)
               else (True, None, w1))
      else (False, None, w))"

text \<open>\<^verbatim>\<open>filter(a => a !== miningTarget)\<close>: the array without the object at position \<open>i\<close>.\<close>

definition removeAt :: "nat \<Rightarrow> 'a list \<Rightarrow> 'a list" where
  "removeAt i xs = take i xs @ drop (Suc i) xs"

definition chunkParticle :: "Input \<Rightarrow> Asteroid \<Rightarrow> nat \<Rightarrow> Particle" where
  "chunkParticle inp a k =
     \<lparr> x = x a + (random inp Chunk k 0 - 0.5) * radius a * 0.5,
       y = y a + (random inp Chunk k 1 - 0.5) * radius a * 0.5,
       vx = (random inp Chunk k 2 - 0.5) * 3,
       vy = (random inp Chunk k 3 - 0.5) * 3,
       life = 60 + random inp Chunk k 4 * 40,
       maxLife = 100,
       color = MINERAL_COLORS (ast_type a),
       psize = 3 + random inp Chunk k 5 * 4,
       ptext = None \<rparr>"

definition dustParticle :: "Input \<Rightarrow> Asteroid \<Rightarrow> nat \<Rightarrow> Particle" where
  "dustParticle inp a k =
     \<lparr> x = x a + (random inp Dust k 0 - 0.5) * radius a,
       y = y a + (random inp Dust k 1 - 0.5) * radius a,
       vx = (random inp Dust k 2 - 0.5) * 6,
       vy = (random inp Dust k 3 - 0.5) * 6,
       life = 30 + random inp Dust k 4 * 20,
       maxLife = 50,
       color = MINERAL_COLORS (ast_type a),
       psize = 1 + random inp Dust k 5 * 2,
       ptext = None \<rparr>"

text \<open>Lines 511 to 522: the spark of a hit on an asteroid.\<close>

definition sparks :: "Input \<Rightarrow> Asteroid \<Rightarrow> Particle list" where
  "sparks inp a =
     (if random inp Spark 0 0 > 0.5
      then [\<lparr> x = x a + (random inp Spark 0 1 - 0.5) * 20,
              y = y a + (random inp Spark 0 2 - 0.5) * 20,
              vx = (random inp Spark 0 3 - 0.5) * 3,
              vy = (random inp Spark 0 4 - 0.5) * 3,
              life = 15, maxLife = 15,
              color = ''#ffffff'', psize = 1, ptext = None \<rparr>]
      else [])"

definition asteroidLoot :: "Input \<Rightarrow> Asteroid \<Rightarrow> Loot" where
  "asteroidLoot inp a =
     (let lootAmount = \<lfloor>radius a / 5\<rfloor>
      in \<lparr> x = x a, y = y a,
           vx = (random inp Drop 0 0 - 0.5) * 1.5,
           vy = (random inp Drop 0 1 - 0.5) * 1.5,
           life = LOOT_DESPAWN_TIME,
           loot_type = ast_type a, amount = lootAmount \<rparr>)"

text \<open>
  Lines 505 to 564: the asteroid at position \<open>i\<close> of the array is the mining target.
  The combat block only ever selects an asteroid of the array, so \<open>i\<close> is within it.
\<close>

definition hitAsteroid :: "Input \<Rightarrow> nat \<Rightarrow> World \<Rightarrow> World" where
  "hitAsteroid inp i w =
     (let s = ship w;
          a0 = asteroids w ! i;
          a = a0\<lparr> isHeating := True, health := health a0 - miningPower (shipConfig s) \<rparr>;
          s' = s\<lparr> currentFuel := currentFuel s - thrustConsumptionRate (shipConfig s) * 0.5 \<rparr>;
          ps = particles w @ sparks inp a
      in if health a \<le> 0
         then w\<lparr> ship := s', shake := 15,
                 loot := loot w @ [asteroidLoot inp a],
                 particles := ps @ map (chunkParticle inp a) [0..<8]
                                 @ map (dustParticle inp a) [0..<15],
                 asteroids := removeAt i ((asteroids w)[i := a]) \<rparr>
         else w\<lparr> ship := s', shake := max (shake w) 2,
                 particles := ps, asteroids := (asteroids w)[i := a] \<rparr>)"

text \<open>Lines 504 to 565, for the mining target the combat block selected.\<close>

definition mineAsteroid :: "Input \<Rightarrow> nat option \<Rightarrow> World \<Rightarrow> World" where
  "mineAsteroid inp miningTarget w =
     (case miningTarget of None \<Rightarrow> w | Some i \<Rightarrow> hitAsteroid inp i w)"

subsection \<open>Loot\<close>

text \<open>
  The body of the \<^verbatim>\<open>forEach\<close> of lines 572 to 621 for the \<open>k\<close>-th loot item: it
  moves the item and may change the ship's cargo and add a particle.
\<close>

definition moveLoot :: "Loot \<Rightarrow> Loot" where
  "moveLoot l =
     l\<lparr> x := x l + vx l, y := y l + vy l,
        vx := vx l * 0.95, vy := vy l * 0.95,
        life := life l - 1 \<rparr>"

definition lootInRange :: "PlayerState \<Rightarrow> Loot \<Rightarrow> bool" where
  "lootInRange s l =
     (let dx = x (position s) - x l;
          dy = y (position s) - y l;
          distance = sqrt (dx * dx + dy * dy)
      in distance < LOOT_COLLECTION_RANGE)"

definition lootStep ::
  "Input \<Rightarrow> nat \<Rightarrow> Loot \<Rightarrow> PlayerState \<Rightarrow> Particle list \<Rightarrow> Loot \<times> PlayerState \<times> Particle list" where
  "lootStep inp k l0 s ps =
     (let l = moveLoot l0
      in if lootInRange s l
         then (let currentCargoTotal = cargoTotal (cargo s)
               in if of_int currentCargoTotal + of_int (amount l) \<le> maxCargo (shipConfig s)
                  then (l\<lparr> life := 0 \<rparr>,
                        s\<lparr> cargo := (cargo s)(loot_type l := cargo s (loot_type l) + amount l) \<rparr>,
                        ps @ [\<lparr> x = x l, y = y l, vx = 0, vy = -1, life = 60, maxLife = 60,
                                color = ''#aaffaa'', psize = 0,
                                ptext = Some (TextCollected (amount l) (loot_type l)) \<rparr>])
                  else (l, s,
                        if random inp Full k 0 < 0.05
                        then ps @ [\<lparr> x = x l, y = y l, vx = 0, vy = -0.5, life = 40, maxLife = 40,
                                     color = ''#ef4444'', psize = 0,
                                     ptext = Some TextCargoFull \<rparr>]
                        else ps))
         else (l, s, ps))"

fun lootLoop ::
  "Input \<Rightarrow> nat \<Rightarrow> Loot list \<Rightarrow> PlayerState \<Rightarrow> Particle list \<Rightarrow> Loot list \<times> PlayerState \<times> Particle list" where
  "lootLoop inp k [] s ps = ([], s, ps)"
| "lootLoop inp k (l # ls) s ps =
     (let (l', s', ps') = lootStep inp k l s ps;
          (ls', s'', ps'') = lootLoop inp (Suc k) ls s' ps'
      in (l' # ls', s'', ps''))"

text \<open>Lines 572 to 622.\<close>

definition lootLogic :: "Input \<Rightarrow> World \<Rightarrow> World" where
  "lootLogic inp w =
     (let (ls, s, ps) = lootLoop inp 0 (loot w) (ship w) (particles w)
      in w\<lparr> loot := filter (\<lambda>l. life l > 0) ls, ship := s, particles := ps \<rparr>)"

subsection \<open>The frame\<close>

text \<open>
  What the rendering half of the callback writes back: it turns every asteroid, clears
  its heating flag, and ages and purges the particles.
\<close>

definition renderEffects :: "World \<Rightarrow> World" where
  "renderEffects w =
     w\<lparr> asteroids :=
           map (\<lambda>a. a\<lparr> ast_rotation := ast_rotation a + ast_rotationSpeed a,
                        isHeating := False \<rparr>) (asteroids w),
        particles :=
           filter (\<lambda>p. life p > 0)
             (map (\<lambda>p. p\<lparr> x := x p + vx p, y := y p + vy p, life := life p - 1 \<rparr>)
                  (particles w)) \<rparr>"

text \<open>
  Lines 286 to 392, for a frame that the game-over check did not end: idle fuel drain,
  camera, alien spawn and alien update.
\<close>

definition preCombat :: "Input \<Rightarrow> World \<Rightarrow> World" where
  "preCombat inp w =
     updateAlien inp (spawnAlien inp (cameraFollow inp (w\<lparr> ship := idleFuel (ship w) \<rparr>)))"

text \<open>Lines 396 to 565: the laser, from target selection to destruction.\<close>

definition laser :: "Input \<Rightarrow> World \<Rightarrow> World" where
  "laser inp w =
     (let (attackingAlien, miningTarget, w1) = combat inp w
      in mineAsteroid inp miningTarget w1)"

definition distToStation :: "PlayerState \<Rightarrow> real" where
  "distToStation s = sqrt ((x (position s))\<^sup>2 + (y (position s))\<^sup>2)"

text \<open>Lines 286 to 622 of a frame that the game-over check did not end.\<close>

definition logic :: "Input \<Rightarrow> World \<Rightarrow> World" where
  "logic inp w = lootLogic inp (laser inp (preCombat inp w))"

text \<open>
  One call of \<^verbatim>\<open>loop\<close> with the canvas attached. The result is the callback invoked,
  if any, and the world as the call leaves it; the callback returns without scheduling
  the next frame exactly when it invokes one of the two callbacks.
\<close>

definition frame :: "Input \<Rightarrow> World \<Rightarrow> Signal option \<times> World" where
  "frame inp w0 =
     (let (speed, w1) = physics inp w0
      in if gameOverCheck (ship w1) then (Some OnGameOver, w1)
         else (let w2 = logic inp w1
               in if distToStation (ship w2) < DOCKING_RANGE \<and> speed < 2
                  then (if speed < 0.5 then (Some (OnDock (ship w2)), w2)
                        else (None, renderEffects w2))
                  else (None, renderEffects w2)))"

text \<open>
  The mission: frames follow one another until one of them invokes a callback. After
  that no frame is scheduled, so the inputs that remain are not read.
\<close>

datatype Mission = Playing World | Ended Signal World

fun run :: "Input list \<Rightarrow> World \<Rightarrow> Mission" where
  "run [] w = Playing w"
| "run (inp # inps) w =
     (case frame inp w of
        (Some signal, w') \<Rightarrow> Ended signal w'
      | (None, w') \<Rightarrow> run inps w')"

text \<open>
  The initialisation effect of the canvas (lines 73 to 167) for a launch with ship state
  \<open>s\<close>. The asteroid field it generates is random and is a parameter here.
\<close>

definition newMission :: "PlayerState \<Rightarrow> Asteroid list \<Rightarrow> World" where
  "newMission s asts =
     \<lparr> ship = s, asteroids = asts, alien = None, particles = [], loot = [],
       shake = 0, camera = \<lparr> x = 0, y = 0 \<rparr> \<rparr>"

subsection \<open>Conditions of the frame, named\<close>

text \<open>The alien, if there is one, passes the aim-assist test.\<close>

definition alienInSight :: "Input \<Rightarrow> World \<Rightarrow> bool" where
  "alienInSight inp w = (case alien w of None \<Rightarrow> False | Some a \<Rightarrow> aimAssist inp w a)"

text \<open>The data-model invariant on the cargo: the counts sum to at most \<^verbatim>\<open>maxCargo\<close>.\<close>

definition withinCapacity :: "PlayerState \<Rightarrow> bool" where
  "withinCapacity s = (of_int (cargoTotal (cargo s)) \<le> maxCargo (shipConfig s))"

subsection \<open>Sample inputs\<close>

text \<open>
  A frame with no key held and the mouse button up, on an 800 by 600 canvas, in which
  every random draw is one half: no alien spawns, no spark is drawn.
\<close>

definition quietInput :: Input where
  "quietInput =
     \<lparr> keys = (\<lambda>k. False), mouseX = 0, mouseY = 0, isDown = False,
       width = 800, height = 600, random = (\<lambda>site k j. 1 / 2) \<rparr>"

text \<open>The same frame with the thrust key held.\<close>

definition thrustInput :: Input where
  "thrustInput = quietInput\<lparr> keys := (\<lambda>k. k = ''KeyW'') \<rparr>"

text \<open>A ship at rest with an empty tank, 100 units from the station.\<close>

definition strandedShip :: PlayerState where
  "strandedShip = initialPlayerState\<lparr> currentFuel := 0, position := \<lparr> x = 100, y = 0 \<rparr> \<rparr>"

text \<open>Five units of iron drifting at the launch position.\<close>

definition sampleLoot :: Loot where
  "sampleLoot =
     \<lparr> x = 0, y = 220, vx = 0, vy = 0, life = LOOT_DESPAWN_TIME,
       loot_type = IRON, amount = 5 \<rparr>"

text \<open>An alien hovering at the launch position, one frame before its drain interval ends.\<close>

definition sampleAlien :: Alien where
  "sampleAlien =
     \<lparr> x = 0, y = 220, vx = 0, vy = 0, hp = ALIEN_HP, maxHp = ALIEN_HP,
       stolenCargo = [], state = DRAINING, drainTimer = 44, wobbleAngle = 0 \<rparr>"

subsection \<open>Following one asteroid through a run\<close>

text \<open>
  The mining target a frame selects (the value of \<^verbatim>\<open>miningTarget\<close> when line 504 is
  reached), or none when the frame ends at the game-over check.
\<close>

definition frameTarget :: "Input \<Rightarrow> World \<Rightarrow> nat option" where
  "frameTarget inp w0 =
     (let (speed, w1) = physics inp w0
      in if gameOverCheck (ship w1) then None
         else fst (snd (combat inp (preCombat inp w1))))"

text \<open>The world when the laser block of a frame starts, and when it has finished.\<close>

definition beforeLaser :: "Input \<Rightarrow> World \<Rightarrow> World" where
  "beforeLaser inp w0 = preCombat inp (snd (physics inp w0))"

definition afterLaser :: "Input \<Rightarrow> World \<Rightarrow> World" where
  "afterLaser inp w0 = laser inp (beforeLaser inp w0)"

text \<open>The world a run leaves.\<close>

fun after :: "Input list \<Rightarrow> World \<Rightarrow> World" where
  "after [] w = w"
| "after (inp # inps) w =
     (case frame inp w of
        (Some signal, w') \<Rightarrow> w'
      | (None, w') \<Rightarrow> after inps w')"

text \<open>
  In every frame of the run the asteroid at position \<open>i\<close> is the mining target, and no
  frame ends the mission.
\<close>

fun mining :: "nat \<Rightarrow> Input list \<Rightarrow> World \<Rightarrow> bool" where
  "mining i [] w = True"
| "mining i (inp # inps) w =
     (frameTarget inp w = Some i \<and> fst (frame inp w) = None \<and> mining i inps (snd (frame inp w)))"

text \<open>
  What identifies an asteroid and matters for mining it: id, radius, mineral and health.
  The renderer changes only the rotation and the heating flag.
\<close>

definition rock :: "Asteroid \<Rightarrow> nat \<times> real \<times> MineralType \<times> real" where
  "rock a = (ast_id a, radius a, ast_type a, health a)"

text \<open>
  Lines 506, 524 and 563 on that view of the asteroids: the target loses \<open>p\<close> health and,
  if none is left, its entry is removed.
\<close>

definition minedRocks ::
  "nat option \<Rightarrow> real \<Rightarrow> (nat \<times> real \<times> MineralType \<times> real) list
     \<Rightarrow> (nat \<times> real \<times> MineralType \<times> real) list" where
  "minedRocks miningTarget p rs =
     (case miningTarget of
        None \<Rightarrow> rs
      | Some i \<Rightarrow>
          (case rs ! i of
             (d, r, t, h) \<Rightarrow> if h - p \<le> 0 then removeAt i rs else rs[i := (d, r, t, h - p)]))"

text \<open>
  A ship at rest 1000 units east of the station with \<open>f\<close> units of fuel, the laser held
  on a gold asteroid of health \<open>h\<close> 50 units further east, in the state that repeated
  mining frames keep reproducing.
\<close>

definition sampleAsteroid :: Asteroid where
  "sampleAsteroid =
     \<lparr> x = 1050, y = 0, vx = 0, vy = 0, ast_id = 0, radius = 22, ast_type = GOLD,
       health = 100, maxHealth = 100, ast_rotation = 0, ast_rotationSpeed = 0,
       isHeating = False \<rparr>"

definition miningWorld :: "real \<Rightarrow> real \<Rightarrow> World" where
  "miningWorld f h =
     \<lparr> ship = initialPlayerState\<lparr> currentFuel := f, position := \<lparr> x = 1000, y = 0 \<rparr> \<rparr>,
       asteroids = [sampleAsteroid\<lparr> health := h \<rparr>],
       alien = None, particles = [], loot = [], shake = 2,
       camera = \<lparr> x = 600, y = -300 \<rparr> \<rparr>"

text \<open>The mouse button held with the cursor on that asteroid.\<close>

definition mineInput :: Input where
  "mineInput = quietInput\<lparr> mouseX := 450, mouseY := 300, isDown := True \<rparr>"

subsection \<open>What the laser and the alien do in a frame\<close>

text \<open>
  The value of \<^verbatim>\<open>attackingAlien\<close> when line 504 is reached: whether the frame hit
  the alien. It is false when the frame ends at the game-over check.
\<close>

definition frameAttack :: "Input \<Rightarrow> World \<Rightarrow> bool" where
  "frameAttack inp w0 =
     (let (speed, w1) = physics inp w0
      in if gameOverCheck (ship w1) then False
         else fst (combat inp (preCombat inp w1)))"

text \<open>
  The tests of lines 360 and 362 for a ship \<open>s\<close> and the alien \<open>alien0\<close> as the alien
  block finds it: after its move the alien is draining, the distance measured before the
  move is within the drain range, and the timer reaches the interval with this frame.
\<close>

definition drainTick :: "PlayerState \<Rightarrow> Alien \<Rightarrow> bool" where
  "drainTick s alien0 =
     (state (moveAlien s alien0) = DRAINING
      \<and> alienDistance s alien0 < ALIEN_DRAIN_RANGE
      \<and> drainTimer alien0 + 1 \<ge> ALIEN_DRAIN_INTERVAL)"

subsection \<open>Sample worlds with an alien\<close>

text \<open>The mining world with a fresh alien on the asteroid, under the cursor.\<close>

definition alienWorld :: World where
  "alienWorld =
     (miningWorld 1000 100)
       \<lparr> alien := Some (sampleAlien\<lparr> x := 1050, y := 0, drainTimer := 0 \<rparr>) \<rparr>"

text \<open>
  The same ship with two units of iron and one of gold in the hold, and the sample alien
  hovering over it, one frame before its drain interval ends.
\<close>

definition drainWorld :: World where
  "drainWorld =
     (miningWorld 1000 100)
       \<lparr> ship := (ship (miningWorld 1000 100))\<lparr> cargo := (\<lambda>t. 0)(IRON := 2, GOLD := 1) \<rparr>,
         alien := Some (sampleAlien\<lparr> x := 1000, y := 0 \<rparr>) \<rparr>"

text \<open>The same world with an empty hold.\<close>

definition emptyHoldWorld :: World where
  "emptyHoldWorld =
     (miningWorld 1000 100) \<lparr> alien := Some (sampleAlien\<lparr> x := 1000, y := 0 \<rparr>) \<rparr>"

section \<open>Auxiliary facts\<close>

subsection \<open>Comparing a square root with a bound\<close>

lemma sqrt_less_iff: "0 < b \<Longrightarrow> sqrt a < b \<longleftrightarrow> a < b\<^sup>2"
  by (metis abs_of_pos real_sqrt_abs real_sqrt_less_iff)

lemma sqrt_le_iff: "0 \<le> b \<Longrightarrow> sqrt a \<le> b \<longleftrightarrow> a \<le> b\<^sup>2"
  by (metis abs_of_nonneg real_sqrt_abs real_sqrt_le_iff)

lemma less_sqrt_iff: "0 \<le> b \<Longrightarrow> b < sqrt a \<longleftrightarrow> b\<^sup>2 < a"
  by (metis abs_of_nonneg real_sqrt_abs real_sqrt_less_iff)

subsection \<open>What each block of the frame leaves alone\<close>

lemma shakeDecay_fields [simp]:
  "ship (shakeDecay w) = ship w"
  "asteroids (shakeDecay w) = asteroids w"
  "alien (shakeDecay w) = alien w"
  "loot (shakeDecay w) = loot w"
  "particles (shakeDecay w) = particles w"
  by (simp_all add: shakeDecay_def Let_def)

lemma applyRotation_fields [simp]:
  "currentFuel (applyRotation inp s) = currentFuel s"
  "shipConfig (applyRotation inp s) = shipConfig s"
  "cargo (applyRotation inp s) = cargo s"
  "position (applyRotation inp s) = position s"
  "velocity (applyRotation inp s) = velocity s"
  by (simp_all add: applyRotation_def Let_def)

lemma applyThrust_fields [simp]:
  "shipConfig (ship (applyThrust inp w)) = shipConfig (ship w)"
  "cargo (ship (applyThrust inp w)) = cargo (ship w)"
  "position (ship (applyThrust inp w)) = position (ship w)"
  "asteroids (applyThrust inp w) = asteroids w"
  "alien (applyThrust inp w) = alien w"
  "loot (applyThrust inp w) = loot w"
  by (simp_all add: applyThrust_def Let_def)

lemma applyThrust_fuel:
  "currentFuel (ship (applyThrust inp w)) =
     (if isThrusting inp \<and> currentFuel (ship w) > 0
      then currentFuel (ship w) - thrustConsumptionRate (shipConfig (ship w))
      else currentFuel (ship w))"
  by (simp add: applyThrust_def Let_def)

lemma glide_fields [simp]:
  "currentFuel (updatePosition (capSpeed v (applyDrag s))) = currentFuel s"
  "shipConfig (updatePosition (capSpeed v (applyDrag s))) = shipConfig s"
  "cargo (updatePosition (capSpeed v (applyDrag s))) = cargo s"
  by (simp_all add: applyDrag_def capSpeed_def updatePosition_def)

lemma physics_fields [simp]:
  "shipConfig (ship (snd (physics inp w))) = shipConfig (ship w)"
  "cargo (ship (snd (physics inp w))) = cargo (ship w)"
  "asteroids (snd (physics inp w)) = asteroids w"
  "alien (snd (physics inp w)) = alien w"
  "loot (snd (physics inp w)) = loot w"
  by (simp_all add: physics_def Let_def)

lemma physics_fuel:
  "currentFuel (ship (snd (physics inp w))) =
     (if isThrusting inp \<and> currentFuel (ship w) > 0
      then currentFuel (ship w) - thrustConsumptionRate (shipConfig (ship w))
      else currentFuel (ship w))"
  by (simp add: physics_def Let_def applyThrust_fuel)

lemma idleFuel_fields [simp]:
  "shipConfig (idleFuel s) = shipConfig s"
  "cargo (idleFuel s) = cargo s"
  "position (idleFuel s) = position s"
  "velocity (idleFuel s) = velocity s"
  "rotation (idleFuel s) = rotation s"
  by (simp_all add: idleFuel_def)

lemma cameraFollow_fields [simp]:
  "ship (cameraFollow inp w) = ship w"
  "asteroids (cameraFollow inp w) = asteroids w"
  "alien (cameraFollow inp w) = alien w"
  "loot (cameraFollow inp w) = loot w"
  "particles (cameraFollow inp w) = particles w"
  by (simp_all add: cameraFollow_def)

lemma spawnAlien_fields [simp]:
  "ship (spawnAlien inp w) = ship w"
  "asteroids (spawnAlien inp w) = asteroids w"
  "loot (spawnAlien inp w) = loot w"
  "particles (spawnAlien inp w) = particles w"
  "camera (spawnAlien inp w) = camera w"
  by (simp_all add: spawnAlien_def Let_def split: option.splits)

lemma vampiricDrain_ship:
  "vampiricDrain inp d a s ps = (a', s', ps') \<Longrightarrow>
     currentFuel s' = currentFuel s \<and> shipConfig s' = shipConfig s
     \<and> position s' = position s \<and> velocity s' = velocity s \<and> rotation s' = rotation s"
  by (auto simp: vampiricDrain_def Let_def split: if_splits)

lemma updateAlien_cases:
  obtains (none) "alien w = None" "updateAlien inp w = w"
  | (some) a0 a s' ps' where "alien w = Some a0"
      "vampiricDrain inp (alienDistance (ship w) a0) (moveAlien (ship w) a0) (ship w) (particles w)
         = (a, s', ps')"
      "updateAlien inp w = w\<lparr> alien := Some a, ship := s', particles := ps' \<rparr>"
proof (cases "alien w")
  case None
  then show ?thesis using none by (simp add: updateAlien_def)
next
  case (Some a0)
  obtain a s' ps' where v:
    "vampiricDrain inp (alienDistance (ship w) a0) (moveAlien (ship w) a0) (ship w) (particles w)
       = (a, s', ps')"
    by (metis prod_cases3)
  with Some show ?thesis using some by (simp add: updateAlien_def)
qed

lemma updateAlien_fields [simp]:
  "currentFuel (ship (updateAlien inp w)) = currentFuel (ship w)"
  "shipConfig (ship (updateAlien inp w)) = shipConfig (ship w)"
  "position (ship (updateAlien inp w)) = position (ship w)"
  "velocity (ship (updateAlien inp w)) = velocity (ship w)"
  "asteroids (updateAlien inp w) = asteroids w"
  "loot (updateAlien inp w) = loot w"
  "camera (updateAlien inp w) = camera w"
  by (cases inp w rule: updateAlien_cases; simp add: vampiricDrain_ship)+

lemma preCombat_fields [simp]:
  "shipConfig (ship (preCombat inp w)) = shipConfig (ship w)"
  "position (ship (preCombat inp w)) = position (ship w)"
  "velocity (ship (preCombat inp w)) = velocity (ship w)"
  "asteroids (preCombat inp w) = asteroids w"
  "loot (preCombat inp w) = loot w"
  "currentFuel (ship (preCombat inp w)) = currentFuel (idleFuel (ship w))"
  by (simp_all add: preCombat_def)

lemma hitAlien_fields [simp]:
  "shipConfig (ship (hitAlien inp a w)) = shipConfig (ship w)"
  "cargo (ship (hitAlien inp a w)) = cargo (ship w)"
  "position (ship (hitAlien inp a w)) = position (ship w)"
  "velocity (ship (hitAlien inp a w)) = velocity (ship w)"
  "asteroids (hitAlien inp a w) = asteroids w"
  "currentFuel (ship (hitAlien inp a w)) =
     currentFuel (ship w) - thrustConsumptionRate (shipConfig (ship w)) * 0.5"
  by (simp_all add: hitAlien_def Let_def)

lemma hitAlien_alien:
  "alien (hitAlien inp a w) =
     (if hp a - miningPower (shipConfig (ship w)) \<le> 0 then None
      else Some (a\<lparr> hp := hp a - miningPower (shipConfig (ship w)) \<rparr>))"
  by (simp add: hitAlien_def Let_def)

lemma hitAsteroid_fields [simp]:
  "shipConfig (ship (hitAsteroid inp i w)) = shipConfig (ship w)"
  "cargo (ship (hitAsteroid inp i w)) = cargo (ship w)"
  "position (ship (hitAsteroid inp i w)) = position (ship w)"
  "velocity (ship (hitAsteroid inp i w)) = velocity (ship w)"
  "alien (hitAsteroid inp i w) = alien w"
  "currentFuel (ship (hitAsteroid inp i w)) =
     currentFuel (ship w) - thrustConsumptionRate (shipConfig (ship w)) * 0.5"
  by (simp_all add: hitAsteroid_def Let_def)

lemma removeAt_update [simp]: "removeAt i (xs[i := v]) = removeAt i xs"
  by (simp add: removeAt_def)

lemma length_removeAt: "i < length xs \<Longrightarrow> length (removeAt i xs) = length xs - 1"
  by (simp add: removeAt_def)

lemma hitAsteroid_asteroids:
  "asteroids (hitAsteroid inp i w) =
     (if health (asteroids w ! i) - miningPower (shipConfig (ship w)) \<le> 0
      then removeAt i (asteroids w)
      else (asteroids w)
             [i := (asteroids w ! i)
                     \<lparr> isHeating := True,
                       health := health (asteroids w ! i) - miningPower (shipConfig (ship w)) \<rparr>])"
  by (simp add: hitAsteroid_def Let_def)

text \<open>The loop with \<^verbatim>\<open>break\<close> returns the first asteroid that passes both tests.\<close>

lemma findTarget_Some:
  "findTarget mx my s asts = Some i \<Longrightarrow>
     i < length asts \<and> canMine mx my s (asts ! i) \<and> (\<forall>j<i. \<not> canMine mx my s (asts ! j))"
proof (induction asts arbitrary: i)
  case Nil
  then show ?case by simp
next
  case (Cons a asts)
  show ?case
  proof (cases "canMine mx my s a")
    case True
    with Cons.prems show ?thesis by simp
  next
    case False
    with Cons.prems obtain k where k: "findTarget mx my s asts = Some k" "i = Suc k"
      by auto
    from Cons.IH [OF k(1)] False k(2) show ?thesis
      by (auto simp: less_Suc_eq_0_disj)
  qed
qed

lemma findTarget_None:
  "findTarget mx my s asts = None \<longleftrightarrow> (\<forall>j<length asts. \<not> canMine mx my s (asts ! j))"
proof (induction asts)
  case Nil
  then show ?case by simp
next
  case (Cons a asts)
  then show ?case
    by (auto simp: less_Suc_eq_0_disj)
qed

lemma laser_idle:
  "\<not> (isDown inp \<and> currentFuel (ship w) > 0) \<Longrightarrow> laser inp w = w"
  by (auto simp: laser_def combat_def mineAsteroid_def)

lemma laser_alien:
  "isDown inp \<Longrightarrow> currentFuel (ship w) > 0 \<Longrightarrow> alien w = Some a \<Longrightarrow> aimAssist inp w a \<Longrightarrow>
     laser inp w = hitAlien inp a w"
  by (simp add: laser_def combat_def attackAlien_def mineAsteroid_def)

lemma laser_asteroids:
  "isDown inp \<Longrightarrow> currentFuel (ship w) > 0 \<Longrightarrow> \<not> alienInSight inp w \<Longrightarrow>
     laser inp w =
       mineAsteroid inp (findTarget (worldMouseX inp w) (worldMouseY inp w) (ship w) (asteroids w)) w"
  by (auto simp: laser_def combat_def attackAlien_def alienInSight_def split: option.splits)

lemma laser_cases:
  obtains (idle) "\<not> (isDown inp \<and> currentFuel (ship w) > 0)" "laser inp w = w"
  | (alien) a where "isDown inp" "currentFuel (ship w) > 0" "alien w = Some a" "aimAssist inp w a"
      "laser inp w = hitAlien inp a w"
  | (miss) "isDown inp" "currentFuel (ship w) > 0" "\<not> alienInSight inp w"
      "findTarget (worldMouseX inp w) (worldMouseY inp w) (ship w) (asteroids w) = None"
      "laser inp w = w"
  | (asteroid) i where "isDown inp" "currentFuel (ship w) > 0" "\<not> alienInSight inp w"
      "findTarget (worldMouseX inp w) (worldMouseY inp w) (ship w) (asteroids w) = Some i"
      "laser inp w = hitAsteroid inp i w"
proof (cases "isDown inp \<and> currentFuel (ship w) > 0")
  case False
  then show ?thesis using idle laser_idle by blast
next
  case True
  show ?thesis
  proof (cases "alienInSight inp w")
    case True
    then obtain a where "alien w = Some a" "aimAssist inp w a"
      by (auto simp: alienInSight_def split: option.splits)
    with \<open>isDown inp \<and> currentFuel (ship w) > 0\<close> show ?thesis
      using alien laser_alien by blast
  next
    case False
    show ?thesis
    proof (cases "findTarget (worldMouseX inp w) (worldMouseY inp w) (ship w) (asteroids w)")
      case None
      with False \<open>isDown inp \<and> currentFuel (ship w) > 0\<close> show ?thesis
        using miss laser_asteroids by (simp add: mineAsteroid_def)
    next
      case (Some i)
      with False \<open>isDown inp \<and> currentFuel (ship w) > 0\<close> show ?thesis
        using asteroid laser_asteroids by (simp add: mineAsteroid_def)
    qed
  qed
qed

lemma laser_fields [simp]:
  "shipConfig (ship (laser inp w)) = shipConfig (ship w)"
  "cargo (ship (laser inp w)) = cargo (ship w)"
  "position (ship (laser inp w)) = position (ship w)"
  "velocity (ship (laser inp w)) = velocity (ship w)"
  by (cases inp w rule: laser_cases; simp)+

lemma laser_fuel:
  "currentFuel (ship (laser inp w)) = currentFuel (ship w)
   \<or> (currentFuel (ship w) > 0
      \<and> currentFuel (ship (laser inp w)) =
          currentFuel (ship w) - thrustConsumptionRate (shipConfig (ship w)) * 0.5)"
  by (cases inp w rule: laser_cases; simp)

lemma cargoTotal_sum: "cargoTotal c = c IRON + c SILICON + c GOLD + c KRONOS"
  by (simp add: cargoTotal_def cargoKeys_def)

lemma cargoTotal_upd: "cargoTotal (c(t := v)) = cargoTotal c - c t + v"
  by (cases t) (simp_all add: cargoTotal_sum)

lemma moveLoot_fields [simp]:
  "amount (moveLoot l) = amount l"
  "loot_type (moveLoot l) = loot_type l"
  "life (moveLoot l) = life l - 1"
  by (simp_all add: moveLoot_def)

lemma lootStep_cases:
  obtains (collect) ps' where "lootInRange s (moveLoot l)"
      "of_int (cargoTotal (cargo s)) + of_int (amount l) \<le> maxCargo (shipConfig s)"
      "lootStep inp k l s ps =
         ((moveLoot l)\<lparr> life := 0 \<rparr>,
          s\<lparr> cargo := (cargo s)(loot_type l := cargo s (loot_type l) + amount l) \<rparr>, ps')"
  | (leave) ps' where
      "\<not> (lootInRange s (moveLoot l)
          \<and> of_int (cargoTotal (cargo s)) + of_int (amount l) \<le> maxCargo (shipConfig s))"
      "lootStep inp k l s ps = (moveLoot l, s, ps')"
proof (cases "lootInRange s (moveLoot l)
          \<and> of_int (cargoTotal (cargo s)) + of_int (amount l) \<le> maxCargo (shipConfig s)")
  case True
  then show ?thesis
    using collect by (simp add: lootStep_def Let_def)
next
  case False
  then have "\<exists>ps'. lootStep inp k l s ps = (moveLoot l, s, ps')"
    by (auto simp: lootStep_def Let_def)
  with False show ?thesis
    using leave by blast
qed

lemma lootStep_ship:
  assumes "lootStep inp k l s ps = (l', s', ps')"
  shows "currentFuel s' = currentFuel s \<and> shipConfig s' = shipConfig s \<and> position s' = position s
     \<and> velocity s' = velocity s \<and> (withinCapacity s \<longrightarrow> withinCapacity s')"
  by (rule lootStep_cases [where s = s and l = l and inp = inp and k = k and ps = ps])
     (use assms in \<open>auto simp: withinCapacity_def cargoTotal_upd\<close>)

lemma lootLoop_ship:
  "lootLoop inp k ls s ps = (ls', s', ps') \<Longrightarrow>
     currentFuel s' = currentFuel s \<and> shipConfig s' = shipConfig s \<and> position s' = position s
     \<and> velocity s' = velocity s \<and> (withinCapacity s \<longrightarrow> withinCapacity s')"
proof (induction ls arbitrary: k s ps ls' s' ps')
  case Nil
  then show ?case by simp
next
  case (Cons l ls)
  obtain l1 s1 ps1 where one: "lootStep inp k l s ps = (l1, s1, ps1)"
    by (metis prod_cases3)
  obtain ls2 s2 ps2 where rest: "lootLoop inp (Suc k) ls s1 ps1 = (ls2, s2, ps2)"
    by (metis prod_cases3)
  from Cons.prems one rest have "s' = s2" by simp
  with lootStep_ship [OF one] Cons.IH [OF rest] show ?case by simp
qed

lemma lootLogic_fields:
  "currentFuel (ship (lootLogic inp w)) = currentFuel (ship w)"
  "shipConfig (ship (lootLogic inp w)) = shipConfig (ship w)"
  "position (ship (lootLogic inp w)) = position (ship w)"
  "velocity (ship (lootLogic inp w)) = velocity (ship w)"
  "withinCapacity (ship w) \<Longrightarrow> withinCapacity (ship (lootLogic inp w))"
  "asteroids (lootLogic inp w) = asteroids w"
  "alien (lootLogic inp w) = alien w"
proof -
  obtain ls s ps where l: "lootLoop inp 0 (loot w) (ship w) (particles w) = (ls, s, ps)"
    by (metis prod_cases3)
  then have eq: "lootLogic inp w = w\<lparr> loot := filter (\<lambda>l. life l > 0) ls, ship := s, particles := ps \<rparr>"
    by (simp add: lootLogic_def)
  from lootLoop_ship [OF l] eq
  show "currentFuel (ship (lootLogic inp w)) = currentFuel (ship w)"
    "shipConfig (ship (lootLogic inp w)) = shipConfig (ship w)"
    "position (ship (lootLogic inp w)) = position (ship w)"
    "velocity (ship (lootLogic inp w)) = velocity (ship w)"
    "withinCapacity (ship w) \<Longrightarrow> withinCapacity (ship (lootLogic inp w))"
    "asteroids (lootLogic inp w) = asteroids w"
    "alien (lootLogic inp w) = alien w"
    by simp_all
qed

lemma renderEffects_fields [simp]:
  "ship (renderEffects w) = ship w"
  "alien (renderEffects w) = alien w"
  "loot (renderEffects w) = loot w"
  by (simp_all add: renderEffects_def)

text \<open>The three ways a frame ends.\<close>

lemma frame_cases:
  obtains (over) "gameOverCheck (ship (snd (physics inp w)))"
      "frame inp w = (Some OnGameOver, snd (physics inp w))"
  | (dock) "\<not> gameOverCheck (ship (snd (physics inp w)))"
      "distToStation (ship (logic inp (snd (physics inp w)))) < DOCKING_RANGE"
      "fst (physics inp w) < 0.5"
      "frame inp w = (Some (OnDock (ship (logic inp (snd (physics inp w))))),
                      logic inp (snd (physics inp w)))"
  | (continue) "\<not> gameOverCheck (ship (snd (physics inp w)))"
      "\<not> (distToStation (ship (logic inp (snd (physics inp w)))) < DOCKING_RANGE
          \<and> fst (physics inp w) < 0.5)"
      "frame inp w = (None, renderEffects (logic inp (snd (physics inp w))))"
proof -
  obtain speed w1 where p: "physics inp w = (speed, w1)"
    by (metis prod.exhaust)
  show ?thesis
  proof (cases "gameOverCheck (ship w1)")
    case True
    with p show ?thesis using over by (simp add: frame_def)
  next
    case False
    show ?thesis
    proof (cases "distToStation (ship (logic inp w1)) < DOCKING_RANGE \<and> speed < 0.5")
      case True
      with False p show ?thesis using dock by (simp add: frame_def Let_def)
    next
      case no: False
      with False p show ?thesis using continue by (auto simp: frame_def Let_def)
    qed
  qed
qed

lemma withinCapacity_cong:
  "cargo s' = cargo s \<Longrightarrow> shipConfig s' = shipConfig s \<Longrightarrow> withinCapacity s' = withinCapacity s"
  by (simp add: withinCapacity_def)

lemma vampiricDrain_total:
  "vampiricDrain inp d a s ps = (a', s', ps') \<Longrightarrow> cargoTotal (cargo s') \<le> cargoTotal (cargo s)"
  by (auto simp: vampiricDrain_def Let_def cargoTotal_upd split: if_splits)

lemma updateAlien_capacity:
  "withinCapacity (ship w) \<Longrightarrow> withinCapacity (ship (updateAlien inp w))"
proof (cases inp w rule: updateAlien_cases)
  case none
  assume "withinCapacity (ship w)"
  with none show ?thesis by simp
next
  case (some a0 a s' ps')
  assume "withinCapacity (ship w)"
  with vampiricDrain_total [OF some(2)] vampiricDrain_ship [OF some(2)] some(3)
  show ?thesis
    by (simp add: withinCapacity_def)
qed

lemma logic_capacity: "withinCapacity (ship w) \<Longrightarrow> withinCapacity (ship (logic inp w))"
proof -
  assume a: "withinCapacity (ship w)"
  have "withinCapacity (ship (cameraFollow inp (w\<lparr> ship := idleFuel (ship w) \<rparr>)))"
    using a by (simp add: withinCapacity_def)
  then have "withinCapacity (ship (preCombat inp w))"
    unfolding preCombat_def
    by (intro updateAlien_capacity) (simp add: withinCapacity_def)
  then have "withinCapacity (ship (laser inp (preCombat inp w)))"
    by (simp add: withinCapacity_def)
  then show ?thesis
    unfolding logic_def by (rule lootLogic_fields(5))
qed

lemma logic_fields [simp]:
  "shipConfig (ship (logic inp w)) = shipConfig (ship w)"
  "position (ship (logic inp w)) = position (ship w)"
  "velocity (ship (logic inp w)) = velocity (ship w)"
  by (simp_all add: logic_def lootLogic_fields)

lemma logic_fuel:
  "currentFuel (ship (logic inp w)) = currentFuel (idleFuel (ship w))
   \<or> (currentFuel (idleFuel (ship w)) > 0
      \<and> currentFuel (ship (logic inp w)) =
          currentFuel (idleFuel (ship w)) - thrustConsumptionRate (shipConfig (ship w)) * 0.5)"
  using laser_fuel [of inp "preCombat inp w"]
  by (simp add: logic_def lootLogic_fields)

lemma frame_world:
  "snd (frame inp w) = snd (physics inp w)
   \<or> (\<not> gameOverCheck (ship (snd (physics inp w)))
      \<and> (snd (frame inp w) = logic inp (snd (physics inp w))
         \<or> snd (frame inp w) = renderEffects (logic inp (snd (physics inp w)))))"
  by (cases inp w rule: frame_cases) simp_all

lemma frame_config [simp]: "shipConfig (ship (snd (frame inp w))) = shipConfig (ship w)"
  using frame_world [of inp w] by auto

lemma frame_capacity: "withinCapacity (ship w) \<Longrightarrow> withinCapacity (ship (snd (frame inp w)))"
proof -
  assume a: "withinCapacity (ship w)"
  then have p: "withinCapacity (ship (snd (physics inp w)))"
    by (simp add: withinCapacity_def)
  from logic_capacity [OF p] p frame_world [of inp w] show ?thesis
    by auto
qed

text \<open>The fuel a frame leaves, from the fuel \<open>f1\<close> left after the thrust block.\<close>

lemma frame_fuel:
  fixes inp w
  defines "f1 \<equiv> currentFuel (ship (snd (physics inp w)))"
    and "c \<equiv> shipConfig (ship w)"
  shows "currentFuel (ship (snd (frame inp w))) = f1
     \<or> (f1 > 0 \<and> currentFuel (ship (snd (frame inp w))) = f1 - fuelConsumptionRate c)
     \<or> (f1 > 0 \<and> f1 - fuelConsumptionRate c > 0
        \<and> currentFuel (ship (snd (frame inp w))) =
             f1 - fuelConsumptionRate c - thrustConsumptionRate c * 0.5)"
proof -
  let ?w1 = "snd (physics inp w)"
  have idle: "currentFuel (idleFuel (ship ?w1)) =
                (if f1 > 0 then f1 - fuelConsumptionRate c else f1)"
    by (simp add: idleFuel_def f1_def c_def)
  have l: "currentFuel (ship (logic inp ?w1)) = currentFuel (idleFuel (ship ?w1))
     \<or> (currentFuel (idleFuel (ship ?w1)) > 0
        \<and> currentFuel (ship (logic inp ?w1)) =
            currentFuel (idleFuel (ship ?w1)) - thrustConsumptionRate c * 0.5)"
    using logic_fuel [of inp ?w1] by (simp add: c_def)
  have "currentFuel (ship (snd (frame inp w))) = f1
      \<or> currentFuel (ship (snd (frame inp w))) = currentFuel (ship (logic inp ?w1))"
    using frame_world [of inp w] by (auto simp: f1_def)
  with idle l show ?thesis
    by (cases "f1 > 0") auto
qed

subsection \<open>Asteroids through a frame\<close>

lemma map_removeAt: "map f (removeAt i xs) = removeAt i (map f xs)"
  by (simp add: removeAt_def take_map drop_map)

lemma set_removeAt: "set (removeAt i xs) \<subseteq> set xs"
  by (auto simp: removeAt_def dest: in_set_takeD in_set_dropD)

lemma renderEffects_rocks [simp]:
  "map rock (asteroids (renderEffects w)) = map rock (asteroids w)"
  by (simp add: renderEffects_def rock_def)

lemma combat_target:
  "fst (snd (combat inp w)) =
     (if isDown inp \<and> currentFuel (ship w) > 0 \<and> \<not> alienInSight inp w
      then findTarget (worldMouseX inp w) (worldMouseY inp w) (ship w) (asteroids w)
      else None)"
  by (auto simp: combat_def attackAlien_def alienInSight_def split: option.splits)

lemma hitAsteroid_rocks:
  "i < length (asteroids w) \<Longrightarrow>
   map rock (asteroids (hitAsteroid inp i w)) =
     minedRocks (Some i) (miningPower (shipConfig (ship w))) (map rock (asteroids w))"
  by (simp add: minedRocks_def hitAsteroid_asteroids map_removeAt map_update rock_def)

text \<open>The asteroids after the laser block, from the target the frame selected.\<close>

lemma laser_rocks:
  "map rock (asteroids (laser inp w)) =
     minedRocks (fst (snd (combat inp w))) (miningPower (shipConfig (ship w)))
       (map rock (asteroids w))"
proof (cases inp w rule: laser_cases)
  case idle
  then show ?thesis by (auto simp: combat_target minedRocks_def)
next
  case (alien a)
  then have "alienInSight inp w" by (simp add: alienInSight_def)
  with alien show ?thesis by (simp add: combat_target minedRocks_def)
next
  case miss
  then show ?thesis by (simp add: combat_target minedRocks_def)
next
  case (asteroid i)
  from findTarget_Some [OF asteroid(4)] have "i < length (asteroids w)" by simp
  with asteroid show ?thesis by (simp add: combat_target hitAsteroid_rocks)
qed

lemma frameTarget_eq:
  "frameTarget inp w =
     (if gameOverCheck (ship (snd (physics inp w))) then None
      else fst (snd (combat inp (preCombat inp (snd (physics inp w))))))"
  by (simp add: frameTarget_def split: prod.splits)

lemma frame_rocks:
  "map rock (asteroids (snd (frame inp w))) =
     minedRocks (frameTarget inp w) (miningPower (shipConfig (ship w))) (map rock (asteroids w))"
proof -
  let ?w1 = "snd (physics inp w)"
  let ?wl = "preCombat inp ?w1"
  have l: "asteroids (logic inp ?w1) = asteroids (laser inp ?wl)"
    by (simp add: logic_def lootLogic_fields)
  show ?thesis
  proof (cases inp w rule: frame_cases)
    case over
    then show ?thesis by (simp add: frameTarget_eq minedRocks_def)
  next
    case dock
    then show ?thesis
      using laser_rocks [of inp ?wl] by (simp add: frameTarget_eq l)
  next
    case continue
    then show ?thesis
      using laser_rocks [of inp ?wl] by (simp add: frameTarget_eq l)
  qed
qed

lemma frameTarget_in_range: "frameTarget inp w = Some i \<Longrightarrow> i < length (asteroids w)"
proof -
  assume a: "frameTarget inp w = Some i"
  let ?wl = "preCombat inp (snd (physics inp w))"
  from a have "fst (snd (combat inp ?wl)) = Some i"
    by (simp add: frameTarget_eq split: if_splits)
  then have "findTarget (worldMouseX inp ?wl) (worldMouseY inp ?wl) (ship ?wl) (asteroids ?wl) = Some i"
    by (simp add: combat_target split: if_splits)
  from findTarget_Some [OF this] show ?thesis by simp
qed

text \<open>A run of frames that all hit the asteroid at position \<open>i\<close> without exhausting it.\<close>

lemma mining_run:
  assumes "mining i inps w"
    and "miningPower (shipConfig (ship w)) = p" and "0 \<le> p"
    and "0 < health (asteroids w ! i) - p * real (length inps)"
  shows "run inps w = Playing (after inps w)
     \<and> shipConfig (ship (after inps w)) = shipConfig (ship w)
     \<and> map rock (asteroids (after inps w)) =
         (map rock (asteroids w))
           [i := (ast_id (asteroids w ! i), radius (asteroids w ! i), ast_type (asteroids w ! i),
                  health (asteroids w ! i) - p * real (length inps))]"
  using assms
proof (induction inps arbitrary: w)
  case Nil
  then show ?case by (simp add: rock_def [symmetric] map_update [symmetric])
next
  case (Cons inp inps)
  let ?a = "asteroids w ! i"
  from Cons.prems(1) have tgt: "frameTarget inp w = Some i" and cont: "fst (frame inp w) = None"
    by simp_all
  from cont obtain w' where fr: "frame inp w = (None, w')"
    by (cases "frame inp w") auto
  from Cons.prems(1) fr have rest: "mining i inps w'"
    by simp
  from frameTarget_in_range [OF tgt] have i: "i < length (asteroids w)" .
  have hp: "0 < health ?a - p"
  proof -
    have "p \<le> p * real (length (inp # inps))"
      using Cons.prems(3) by (simp add: mult_le_cancel_left1)
    with Cons.prems(4) show ?thesis by simp
  qed
  have rocks: "map rock (asteroids w') =
      (map rock (asteroids w))[i := (ast_id ?a, radius ?a, ast_type ?a, health ?a - p)]"
    using frame_rocks [of inp w] tgt i hp Cons.prems(2) fr
    by (simp add: minedRocks_def rock_def)
  then have len: "length (asteroids w') = length (asteroids w)"
    by (metis length_list_update length_map)
  from rocks i len have r': "rock (asteroids w' ! i) = (ast_id ?a, radius ?a, ast_type ?a, health ?a - p)"
    by (metis length_map nth_list_update_eq nth_map)
  then have fields: "ast_id (asteroids w' ! i) = ast_id ?a" "radius (asteroids w' ! i) = radius ?a"
    "ast_type (asteroids w' ! i) = ast_type ?a" "health (asteroids w' ! i) = health ?a - p"
    by (simp_all add: rock_def)
  have cfg': "shipConfig (ship w') = shipConfig (ship w)"
    using frame_config [of inp w] fr by simp
  then have cfg: "miningPower (shipConfig (ship w')) = p"
    using Cons.prems(2) by simp
  have pos: "0 < health (asteroids w' ! i) - p * real (length inps)"
    using Cons.prems(4) fields(4) by (simp add: algebra_simps)
  note IH = Cons.IH [OF rest cfg Cons.prems(3) pos]
  have eq: "health ?a - p - p * real (length inps) = health ?a - p * real (length (inp # inps))"
    by (simp add: algebra_simps)
  have "run (inp # inps) w = Playing (after (inp # inps) w)"
    using IH fr by simp
  moreover have "shipConfig (ship (after (inp # inps) w)) = shipConfig (ship w)"
    using IH fr cfg' by simp
  moreover have "map rock (asteroids (after (inp # inps) w)) =
         (map rock (asteroids w))
           [i := (ast_id ?a, radius ?a, ast_type ?a, health ?a - p * real (length (inp # inps)))]"
  proof -
    have "map rock (asteroids (after (inp # inps) w)) = map rock (asteroids (after inps w'))"
      using fr by simp
    also have "\<dots> = (map rock (asteroids w'))
           [i := (ast_id ?a, radius ?a, ast_type ?a, health ?a - p - p * real (length inps))]"
      using IH fields by simp
    also have "\<dots> = (map rock (asteroids w))
           [i := (ast_id ?a, radius ?a, ast_type ?a, health ?a - p - p * real (length inps))]"
      by (simp add: rocks)
    finally show ?thesis
      by (simp only: eq)
  qed
  ultimately show ?case by blast
qed

lemma hitAsteroid_destroyed:
  assumes "health (asteroids w ! i) - miningPower (shipConfig (ship w)) \<le> 0"
  shows "\<exists>l. loot (hitAsteroid inp i w) = loot w @ [l]
            \<and> loot_type l = ast_type (asteroids w ! i)
            \<and> amount l = \<lfloor>radius (asteroids w ! i) / 5\<rfloor>"
    and "length (particles (hitAsteroid inp i w)) \<ge> length (particles w) + 23"
    and "asteroids (hitAsteroid inp i w) = removeAt i (asteroids w)"
  using assms by (simp_all add: hitAsteroid_def Let_def asteroidLoot_def)

lemma frame_hit:
  assumes "frameTarget inp w = Some i"
  shows "afterLaser inp w = hitAsteroid inp i (beforeLaser inp w)"
    and "asteroids (beforeLaser inp w) = asteroids w"
    and "shipConfig (ship (beforeLaser inp w)) = shipConfig (ship w)"
proof -
  let ?wl = "preCombat inp (snd (physics inp w))"
  from assms have t: "fst (snd (combat inp ?wl)) = Some i"
    by (simp add: frameTarget_eq split: if_splits)
  then have c: "isDown inp" "currentFuel (ship ?wl) > 0" "\<not> alienInSight inp ?wl"
    and f: "findTarget (worldMouseX inp ?wl) (worldMouseY inp ?wl) (ship ?wl) (asteroids ?wl) = Some i"
    by (simp_all add: combat_target split: if_splits)
  from laser_asteroids [OF c] f
  show "afterLaser inp w = hitAsteroid inp i (beforeLaser inp w)"
    by (simp add: afterLaser_def beforeLaser_def mineAsteroid_def)
  show "asteroids (beforeLaser inp w) = asteroids w"
    "shipConfig (ship (beforeLaser inp w)) = shipConfig (ship w)"
    by (simp_all add: beforeLaser_def)
qed

lemma mining_take: "mining i inps w \<Longrightarrow> mining i (take k inps) w"
proof (induction inps arbitrary: w k)
  case Nil
  then show ?case by simp
next
  case (Cons inp inps)
  then show ?case by (cases k) simp_all
qed

text \<open>No frame adds an asteroid: the ids after a run are among the ids before it.\<close>

lemma minedRocks_ids:
  "set (map fst (minedRocks t p rs)) \<subseteq> set (map fst rs)"
proof (cases t)
  case None
  then show ?thesis by (simp add: minedRocks_def)
next
  case (Some i)
  obtain d r m h where e: "rs ! i = (d, r, m, h)"
    by (metis prod_cases4)
  show ?thesis
  proof (cases "h - p \<le> 0")
    case True
    with Some e show ?thesis
      using set_removeAt [of i "map fst rs"]
      by (simp add: minedRocks_def map_removeAt [symmetric])
  next
    case False
    have "map fst (rs[i := (d, r, m, h - p)]) = map fst rs"
    proof (cases "i < length rs")
      case True
      with e have "(map fst rs)[i := d] = map fst rs"
        by (metis fst_conv list_update_id nth_map)
      then show ?thesis by (simp add: map_update)
    next
      case no: False
      then have "rs[i := (d, r, m, h - p)] = rs"
        by (simp add: list_update_beyond)
      then show ?thesis by simp
    qed
    with False Some e show ?thesis by (simp add: minedRocks_def)
  qed
qed

lemma ast_id_rock: "map ast_id asts = map fst (map rock asts)"
  by (simp add: rock_def)

lemma frame_ids:
  "set (map ast_id (asteroids (snd (frame inp w)))) \<subseteq> set (map ast_id (asteroids w))"
  unfolding ast_id_rock frame_rocks by (rule minedRocks_ids)

lemma after_ids:
  "set (map ast_id (asteroids (after inps w))) \<subseteq> set (map ast_id (asteroids w))"
proof (induction inps arbitrary: w)
  case Nil
  then show ?case by simp
next
  case (Cons inp inps)
  obtain sg w' where fr: "frame inp w = (sg, w')"
    by (metis prod.exhaust)
  with frame_ids [of inp w] have sub: "set (map ast_id (asteroids w')) \<subseteq> set (map ast_id (asteroids w))"
    by simp
  show ?case
  proof (cases sg)
    case None
    with fr Cons.IH [of w'] sub show ?thesis by auto
  next
    case (Some a)
    with fr sub show ?thesis by simp
  qed
qed

lemma removeAt_distinct:
  assumes "distinct xs" "i < length xs"
  shows "xs ! i \<notin> set (removeAt i xs)"
proof -
  from assms(2) have "xs = take i xs @ xs ! i # drop (Suc i) xs"
    by (rule id_take_nth_drop)
  with assms(1) have "distinct (take i xs @ xs ! i # drop (Suc i) xs)"
    by simp
  then show ?thesis
    by (auto simp: removeAt_def)
qed

section \<open>The station\<close>

lemma sellAll_eq:
  "sellAll ps =
     ps\<lparr> credits := credits ps + of_int (cargo ps IRON * 10 + cargo ps SILICON * 25
                                          + cargo ps GOLD * 100 + cargo ps KRONOS * 500),
         currentFuel := maxFuel (shipConfig ps),
         cargo := (\<lambda>t. 0) \<rparr>"
proof -
  have "(cargo ps)(IRON := 0, SILICON := 0, GOLD := 0, KRONOS := 0) = (\<lambda>t. 0)"
    by (rule ext) (case_tac t; simp)
  then show ?thesis
    by (simp add: sellAll_def cargoKeys_def)
qed

text \<open>
  Claim C8. Refuelling costs \<open>\<lceil>0.1 \<times> (maxFuel - currentFuel)\<rceil>\<close> credits and fills the tank
  when the credits suffice. When they do not, the ship gains \<open>\<lfloor>credits / 0.1\<rfloor>\<close> units of
  fuel and the credits become 0. With 50 credits and 1000 units missing the full price
  is 100, so the ship gains 500 units and is left with no credits.
\<close>

theorem refuel_cost:
  "(credits ps \<ge> of_int \<lceil>(maxFuel (shipConfig ps) - currentFuel ps) * 0.1\<rceil> \<longrightarrow>
      credits (refuel ps) =
        credits ps - of_int \<lceil>(maxFuel (shipConfig ps) - currentFuel ps) * 0.1\<rceil>
      \<and> currentFuel (refuel ps) = maxFuel (shipConfig ps))
   \<and> (credits ps < of_int \<lceil>(maxFuel (shipConfig ps) - currentFuel ps) * 0.1\<rceil> \<longrightarrow>
      credits (refuel ps) = 0
      \<and> currentFuel (refuel ps) = currentFuel ps + of_int \<lfloor>credits ps / 0.1\<rfloor>)
   \<and> (credits ps = 50 \<and> maxFuel (shipConfig ps) - currentFuel ps = 1000 \<longrightarrow>
      \<lceil>(maxFuel (shipConfig ps) - currentFuel ps) * 0.1\<rceil> = 100
      \<and> currentFuel (refuel ps) = currentFuel ps + 500
      \<and> credits (refuel ps) = 0)"
  by (auto simp: refuel_def Let_def)

theorem refuel_cost_witness:
  "credits (initialPlayerState\<lparr>credits := 50, currentFuel := 0\<rparr>) = 50
   \<and> maxFuel (shipConfig initialPlayerState) - 0 = 1000
   \<and> currentFuel (refuel (initialPlayerState\<lparr>credits := 50, currentFuel := 0\<rparr>)) = 500
   \<and> credits (refuel (initialPlayerState\<lparr>credits := 50, currentFuel := 0\<rparr>)) = 0"
  using refuel_cost [of "initialPlayerState\<lparr>credits := 50, currentFuel := 0\<rparr>"]
  by (simp add: initialPlayerState_def INITIAL_SHIP_CONFIG_def)

text \<open>
  Claim C9. Selling all cargo adds to the credits the value of every unit held, empties
  every cargo count, and also sets the fuel to \<^verbatim>\<open>maxFuel\<close>; the credits gained are
  exactly the value of the cargo, so nothing is charged for the fuel.
\<close>

theorem sellAll_refuels_free:
  "credits (sellAll ps) =
     credits ps + of_int (cargo ps IRON * MINERAL_VALUES IRON
                          + cargo ps SILICON * MINERAL_VALUES SILICON
                          + cargo ps GOLD * MINERAL_VALUES GOLD
                          + cargo ps KRONOS * MINERAL_VALUES KRONOS)
   \<and> cargo (sellAll ps) = (\<lambda>t. 0)
   \<and> currentFuel (sellAll ps) = maxFuel (shipConfig ps)
   \<and> shipConfig (sellAll ps) = shipConfig ps"
  by (simp add: sellAll_eq)

theorem sellAll_refuels_free_witness:
  "credits (sellAll (initialPlayerState\<lparr>currentFuel := 0, cargo := (\<lambda>t. 0)(IRON := 2)\<rparr>)) = 20
   \<and> currentFuel (sellAll (initialPlayerState\<lparr>currentFuel := 0, cargo := (\<lambda>t. 0)(IRON := 2)\<rparr>))
       = 1000"
  using sellAll_refuels_free [of "initialPlayerState\<lparr>currentFuel := 0, cargo := (\<lambda>t. 0)(IRON := 2)\<rparr>"]
  by (simp add: initialPlayerState_def INITIAL_SHIP_CONFIG_def)

text \<open>
  Claim C10. The station operations keep the credits non-negative. Selling cargo whose
  counts are non-negative (as they are in every state of the game) only adds to them; a
  refuel that can be paid in full leaves the difference and one that cannot leaves
  exactly 0; an upgrade takes its cost when the credits cover it and otherwise changes
  nothing at all.
\<close>

theorem credits_never_negative:
  assumes "credits ps \<ge> 0"
  shows "((\<forall>t. cargo ps t \<ge> 0) \<longrightarrow> credits (sellAll ps) \<ge> 0)
     \<and> credits (refuel ps) \<ge> 0
     \<and> (credits ps < of_int \<lceil>(maxFuel (shipConfig ps) - currentFuel ps) * 0.1\<rceil> \<longrightarrow>
          credits (refuel ps) = 0)
     \<and> credits (upgradeStat statKey step cost ps) \<ge> 0
     \<and> (credits ps \<ge> cost \<longrightarrow> credits (upgradeStat statKey step cost ps) = credits ps - cost)
     \<and> (credits ps < cost \<longrightarrow> upgradeStat statKey step cost ps = ps)"
  using assms
  by (auto simp: sellAll_eq refuel_def Let_def upgradeStat_def)

theorem credits_never_negative_witness:
  "credits (initialPlayerState\<lparr>credits := 250, currentFuel := 0\<rparr>) \<ge> 0
   \<and> (\<forall>t. cargo (initialPlayerState\<lparr>credits := 250, currentFuel := 0\<rparr>) t \<ge> 0)
   \<and> credits (sellAll (initialPlayerState\<lparr>credits := 250, currentFuel := 0\<rparr>)) \<ge> 0
   \<and> credits (refuel (initialPlayerState\<lparr>credits := 250, currentFuel := 0\<rparr>)) \<ge> 0
   \<and> credits (initialPlayerState\<lparr>credits := 250, currentFuel := 0\<rparr>) \<ge> 200
   \<and> credits (upgradeStat K_maxCargo 10 200 (initialPlayerState\<lparr>credits := 250, currentFuel := 0\<rparr>))
       = 50
   \<and> credits (initialPlayerState\<lparr>credits := 250, currentFuel := 0\<rparr>) < 360
   \<and> upgradeStat K_maxCargo 10 360 (initialPlayerState\<lparr>credits := 250, currentFuel := 0\<rparr>)
       = initialPlayerState\<lparr>credits := 250, currentFuel := 0\<rparr>"
  using credits_never_negative [where ps = "initialPlayerState\<lparr>credits := 250, currentFuel := 0\<rparr>"
          and statKey = K_maxCargo and step = 10 and cost = 200]
    credits_never_negative [where ps = "initialPlayerState\<lparr>credits := 250, currentFuel := 0\<rparr>"
          and statKey = K_maxCargo and step = 10 and cost = 360]
  by (simp add: initialPlayerState_def INITIAL_SHIP_CONFIG_def)

section \<open>Fuel\<close>

text \<open>A ship that has just left the station with a tenth of a unit of fuel.\<close>

lemma lowFuel_after_thrust:
  "currentFuel (ship (snd (physics thrustInput
      (newMission (handleLaunch (initialPlayerState\<lparr>currentFuel := 0.1\<rparr>)) [])))) = - 0.4"
  by (simp add: physics_fuel isThrusting_def thrustInput_def quietInput_def newMission_def
      handleLaunch_def initialPlayerState_def INITIAL_SHIP_CONFIG_def)

text \<open>
  Claim C1, as stated, fails: no deduction is clamped. A ship with 0.1 units of fuel and
  the initial configuration that thrusts for one frame pays the whole 0.5 and is left with
  -0.4 units.
\<close>

theorem fuel_negative_counterexample:
  "0 \<le> currentFuel (ship (newMission (handleLaunch (initialPlayerState\<lparr>currentFuel := 0.1\<rparr>)) []))
   \<and> currentFuel (ship (snd (frame thrustInput
        (newMission (handleLaunch (initialPlayerState\<lparr>currentFuel := 0.1\<rparr>)) [])))) = - 0.4"
  using frame_fuel [of thrustInput "newMission (handleLaunch (initialPlayerState\<lparr>currentFuel := 0.1\<rparr>)) []"]
  by (simp add: lowFuel_after_thrust)
     (simp add: newMission_def handleLaunch_def initialPlayerState_def)

text \<open>
  Claim C1, amended. Every deduction of a frame (thrust, idle drain, laser) is made only
  while the fuel is positive just before it, and nothing clamps the result. So, for
  consumption rates that are not negative, a frame never raises the fuel, it leaves fuel
  that is zero or less exactly as it is, and fuel that is above
  \<open>- max thrustConsumptionRate fuelConsumptionRate\<close> stays above that bound.
\<close>

theorem fuel_deducted_only_while_positive:
  assumes "0 \<le> thrustConsumptionRate (shipConfig (ship w))"
    and "0 \<le> fuelConsumptionRate (shipConfig (ship w))"
  shows "currentFuel (ship (snd (frame inp w))) \<le> currentFuel (ship w)
     \<and> (currentFuel (ship w) \<le> 0 \<longrightarrow>
          currentFuel (ship (snd (frame inp w))) = currentFuel (ship w))
     \<and> (- max (thrustConsumptionRate (shipConfig (ship w)))
              (fuelConsumptionRate (shipConfig (ship w))) < currentFuel (ship w) \<longrightarrow>
          - max (thrustConsumptionRate (shipConfig (ship w)))
              (fuelConsumptionRate (shipConfig (ship w)))
            < currentFuel (ship (snd (frame inp w))))"
  using assms frame_fuel [of inp w] physics_fuel [of inp w]
  by (auto split: if_splits)

theorem fuel_deducted_only_while_positive_witness:
  "0 \<le> thrustConsumptionRate (shipConfig (ship
          (newMission (handleLaunch (initialPlayerState\<lparr>currentFuel := 0.1\<rparr>)) [])))
   \<and> 0 \<le> fuelConsumptionRate (shipConfig (ship
          (newMission (handleLaunch (initialPlayerState\<lparr>currentFuel := 0.1\<rparr>)) [])))
   \<and> - (0.5 :: real) < 0.1
   \<and> - 0.5 < currentFuel (ship (snd (frame thrustInput
          (newMission (handleLaunch (initialPlayerState\<lparr>currentFuel := 0.1\<rparr>)) []))))"
  using fuel_deducted_only_while_positive
          [of "newMission (handleLaunch (initialPlayerState\<lparr>currentFuel := 0.1\<rparr>)) []" thrustInput]
  by (simp add: newMission_def handleLaunch_def initialPlayerState_def INITIAL_SHIP_CONFIG_def)

section \<open>Cargo\<close>

text \<open>
  Claim C2. A frame that starts with the cargo counts summing to at most \<^verbatim>\<open>maxCargo\<close>
  ends the same way, whatever the alien stole and the ship collected. A loot item is
  absorbed, its whole amount added to the count of its type and its life set to zero,
  exactly when it is in collection range and the cargo total plus its amount fits;
  otherwise the ship is as it was and the item is only moved by its own drift.
\<close>

theorem cargo_within_capacity:
  "(of_int (cargoTotal (cargo (ship w))) \<le> maxCargo (shipConfig (ship w)) \<longrightarrow>
      of_int (cargoTotal (cargo (ship (snd (frame inp w)))))
        \<le> maxCargo (shipConfig (ship (snd (frame inp w)))))
   \<and> (lootInRange s (moveLoot l)
        \<and> of_int (cargoTotal (cargo s)) + of_int (amount l) \<le> maxCargo (shipConfig s) \<longrightarrow>
      fst (lootStep inp k l s ps) = (moveLoot l)\<lparr> life := 0 \<rparr>
      \<and> fst (snd (lootStep inp k l s ps)) =
          s\<lparr> cargo := (cargo s)(loot_type l := cargo s (loot_type l) + amount l) \<rparr>)
   \<and> (\<not> (lootInRange s (moveLoot l)
           \<and> of_int (cargoTotal (cargo s)) + of_int (amount l) \<le> maxCargo (shipConfig s)) \<longrightarrow>
      fst (lootStep inp k l s ps) = moveLoot l
      \<and> fst (snd (lootStep inp k l s ps)) = s)"
proof -
  have "withinCapacity (ship w) \<longrightarrow> withinCapacity (ship (snd (frame inp w)))"
    using frame_capacity by blast
  moreover have "lootInRange s (moveLoot l)
        \<and> of_int (cargoTotal (cargo s)) + of_int (amount l) \<le> maxCargo (shipConfig s) \<longrightarrow>
      fst (lootStep inp k l s ps) = (moveLoot l)\<lparr> life := 0 \<rparr>
      \<and> fst (snd (lootStep inp k l s ps)) =
          s\<lparr> cargo := (cargo s)(loot_type l := cargo s (loot_type l) + amount l) \<rparr>"
    by (rule lootStep_cases [where s = s and l = l and inp = inp and k = k and ps = ps]) auto
  moreover have "\<not> (lootInRange s (moveLoot l)
           \<and> of_int (cargoTotal (cargo s)) + of_int (amount l) \<le> maxCargo (shipConfig s)) \<longrightarrow>
      fst (lootStep inp k l s ps) = moveLoot l
      \<and> fst (snd (lootStep inp k l s ps)) = s"
    by (rule lootStep_cases [where s = s and l = l and inp = inp and k = k and ps = ps]) auto
  ultimately show ?thesis
    unfolding withinCapacity_def by blast
qed

lemma sampleLoot_inRange: "lootInRange (handleLaunch initialPlayerState) (moveLoot sampleLoot)"
  by (simp add: lootInRange_def moveLoot_def sampleLoot_def handleLaunch_def
      STATION_POSITION_def LOOT_COLLECTION_RANGE_def)

theorem cargo_within_capacity_witness:
  "of_int (cargoTotal (cargo (ship (newMission (handleLaunch initialPlayerState) [])))) \<le> (20 :: real)
   \<and> of_int (cargoTotal (cargo (ship (snd (frame quietInput
         (newMission (handleLaunch initialPlayerState) [])))))) \<le> (20 :: real)
   \<and> lootInRange (handleLaunch initialPlayerState) (moveLoot sampleLoot)
   \<and> cargo (fst (snd (lootStep quietInput 0 sampleLoot (handleLaunch initialPlayerState) []))) IRON = 5
   \<and> life (fst (lootStep quietInput 0 sampleLoot (handleLaunch initialPlayerState) [])) = 0
   \<and> \<not> (18 + 5 \<le> (20 :: real))
   \<and> fst (snd (lootStep quietInput 0 sampleLoot
         (handleLaunch (initialPlayerState\<lparr> cargo := (\<lambda>t. 0)(IRON := 18) \<rparr>)) []))
       = handleLaunch (initialPlayerState\<lparr> cargo := (\<lambda>t. 0)(IRON := 18) \<rparr>)"
  using cargo_within_capacity [where w = "newMission (handleLaunch initialPlayerState) []"
          and inp = quietInput and s = "handleLaunch initialPlayerState" and l = sampleLoot
          and k = 0 and ps = "[]"]
    cargo_within_capacity [where w = "newMission (handleLaunch initialPlayerState) []"
          and inp = quietInput
          and s = "handleLaunch (initialPlayerState\<lparr> cargo := (\<lambda>t. 0)(IRON := 18) \<rparr>)"
          and l = sampleLoot and k = 0 and ps = "[]"]
    sampleLoot_inRange
  by (simp add: cargoTotal_sum newMission_def handleLaunch_def initialPlayerState_def
      INITIAL_SHIP_CONFIG_def sampleLoot_def)

section \<open>The alien's drain\<close>

lemma stolenCount_setStolen:
  "stolenCount (setStolen sc t v) u = (if u = t then v else stolenCount sc u)"
  by (induction sc) (auto simp: stolenCount_def)

lemma availableTypes_set:
  "set (filter (\<lambda>t. cargo s t > 0) cargoKeys) = {t. cargo s t > 0}"
proof -
  have "set cargoKeys = UNIV"
  proof -
    have "t \<in> set cargoKeys" for t
      by (cases t) (simp_all add: cargoKeys_def)
    then show ?thesis by blast
  qed
  then show ?thesis by auto
qed

text \<open>\<^verbatim>\<open>Math.floor(Math.random() * n)\<close> is an index below \<open>n\<close>, the one whose \<open>n\<close>-th part of the unit interval holds the draw.\<close>

lemma pick_index:
  fixes r :: real
  assumes "0 \<le> r" "r < 1" "0 < n"
  shows "nat \<lfloor>r * real n\<rfloor> < n"
    and "real (nat \<lfloor>r * real n\<rfloor>) / real n \<le> r"
    and "r < (real (nat \<lfloor>r * real n\<rfloor>) + 1) / real n"
proof -
  have nn: "0 \<le> r * real n" using assms by simp
  then have fl: "0 \<le> \<lfloor>r * real n\<rfloor>" by simp
  have "r * real n < real n" using assms by simp
  then have "\<lfloor>r * real n\<rfloor> < int n" by (simp add: floor_less_iff)
  with fl show "nat \<lfloor>r * real n\<rfloor> < n" by linarith
  have eq: "real (nat \<lfloor>r * real n\<rfloor>) = of_int \<lfloor>r * real n\<rfloor>"
    using fl by simp
  have "of_int \<lfloor>r * real n\<rfloor> \<le> r * real n" by (rule of_int_floor_le)
  with assms show "real (nat \<lfloor>r * real n\<rfloor>) / real n \<le> r"
    by (simp add: eq divide_le_eq)
  have "r * real n < of_int \<lfloor>r * real n\<rfloor> + 1" by linarith
  with assms show "r < (real (nat \<lfloor>r * real n\<rfloor>) + 1) / real n"
    by (simp add: eq less_divide_eq)
qed

text \<open>What a drain tick does, with \<open>k\<close> the index picked.\<close>

lemma drain_tick_steal:
  assumes "state a = DRAINING" "d < ALIEN_DRAIN_RANGE"
    and "drainTimer a + 1 \<ge> ALIEN_DRAIN_INTERVAL"
    and "filter (\<lambda>t. cargo s t > 0) cargoKeys \<noteq> []"
  shows "vampiricDrain inp d a s ps =
     (let avail = filter (\<lambda>t. cargo s t > 0) cargoKeys;
          t = avail ! nat \<lfloor>random inp Steal 0 0 * real (length avail)\<rfloor>
      in (a\<lparr> drainTimer := 0,
             stolenCargo := setStolen (stolenCargo a) t (stolenCount (stolenCargo a) t + 1) \<rparr>,
          s\<lparr> cargo := (cargo s)(t := cargo s t - 1) \<rparr>,
          ps @ [\<lparr> x = x (position s), y = y (position s) - 20, vx = 0, vy = -1,
                  life = 60, maxLife = 60, color = ''#ef4444'', psize = 0,
                  ptext = Some (TextStolen t) \<rparr>]))"
  using assms by (simp add: vampiricDrain_def Let_def)

lemma drain_tick_empty:
  assumes "state a = DRAINING" "d < ALIEN_DRAIN_RANGE"
    and "drainTimer a + 1 \<ge> ALIEN_DRAIN_INTERVAL"
    and "filter (\<lambda>t. cargo s t > 0) cargoKeys = []"
  shows "vampiricDrain inp d a s ps = (a\<lparr> drainTimer := 0 \<rparr>, s, ps)"
  using assms by (simp add: vampiricDrain_def Let_def)

text \<open>A drain tick, on the values the drain block is given.\<close>

lemma vampiricDrain_tick:
  assumes "state a = DRAINING" and "d < ALIEN_DRAIN_RANGE"
    and "drainTimer a + 1 \<ge> ALIEN_DRAIN_INTERVAL"
    and "0 \<le> random inp Steal 0 0" and "random inp Steal 0 0 < 1"
    and "\<forall>t. 0 \<le> cargo s t"
    and "vampiricDrain inp d a s ps = (a', s', ps')"
    and "avail = filter (\<lambda>t. cargo s t > 0) cargoKeys"
  shows "drainTimer a' = 0
     \<and> (\<forall>t. 0 \<le> cargo s' t)
     \<and> set avail = {t. cargo s t > 0} \<and> distinct avail
     \<and> ((\<forall>t. cargo s t = 0) \<longrightarrow> cargo s' = cargo s \<and> stolenCargo a' = stolenCargo a)
     \<and> ((\<exists>t. cargo s t > 0) \<longrightarrow>
          (\<exists>k < length avail.
             real k / real (length avail) \<le> random inp Steal 0 0
             \<and> random inp Steal 0 0 < (real k + 1) / real (length avail)
             \<and> cargo s (avail ! k) > 0
             \<and> cargo s' = (cargo s)(avail ! k := cargo s (avail ! k) - 1)
             \<and> cargoTotal (cargo s') = cargoTotal (cargo s) - 1
             \<and> (\<forall>u. stolenCount (stolenCargo a') u =
                      (if u = avail ! k then stolenCount (stolenCargo a) u + 1
                       else stolenCount (stolenCargo a) u))))"
proof -
  have set: "set avail = {t. cargo s t > 0}"
    using assms(8) availableTypes_set by simp
  have dist: "distinct avail"
    using assms(8) by (simp add: cargoKeys_def)
  show ?thesis
  proof (cases "avail = []")
    case True
    with set have zero: "\<forall>t. \<not> cargo s t > 0" by auto
    from True assms have "(a', s', ps') = (a\<lparr> drainTimer := 0 \<rparr>, s, ps)"
      using drain_tick_empty [of a d s inp ps] by simp
    with zero set dist assms(6) show ?thesis by auto
  next
    case False
    define k where "k = nat \<lfloor>random inp Steal 0 0 * real (length avail)\<rfloor>"
    from False have n: "0 < length avail" by simp
    note pk = pick_index [OF assms(4) assms(5) n, folded k_def]
    from pk(1) set have pos: "cargo s (avail ! k) > 0"
      using nth_mem by blast
    from False assms have res: "a' = a\<lparr> drainTimer := 0,
             stolenCargo := setStolen (stolenCargo a) (avail ! k)
                              (stolenCount (stolenCargo a) (avail ! k) + 1) \<rparr>"
      "s' = s\<lparr> cargo := (cargo s)(avail ! k := cargo s (avail ! k) - 1) \<rparr>"
      using drain_tick_steal [of a d s inp ps] by (simp_all add: Let_def k_def)
    have nonneg: "\<forall>t. 0 \<le> cargo s' t"
      using res(2) assms(6) pos by auto
    have tot: "cargoTotal (cargo s') = cargoTotal (cargo s) - 1"
      using res(2) by (simp add: cargoTotal_upd)
    have st: "\<forall>u. stolenCount (stolenCargo a') u =
                      (if u = avail ! k then stolenCount (stolenCargo a) u + 1
                       else stolenCount (stolenCargo a) u)"
      using res(1) by (simp add: stolenCount_setStolen)
    have nz: "\<not> (\<forall>t. cargo s t = 0)"
    proof
      assume "\<forall>t. cargo s t = 0"
      then have "cargo s (avail ! k) = 0" by blast
      with pos show False by simp
    qed
    from pk pos res nonneg tot st set dist nz show ?thesis
      by auto
  qed
qed

section \<open>How a mission ends\<close>

lemma run_append:
  "run inps w = Ended signal w' \<Longrightarrow> run (inps @ later) w = Ended signal w'"
proof (induction inps arbitrary: w)
  case Nil
  then show ?case by simp
next
  case (Cons inp inps)
  then show ?case
    by (cases "frame inp w") (auto split: option.splits)
qed

lemma frame_signal:
  "fst (frame inp w) =
     (if gameOverCheck (ship (snd (physics inp w))) then Some OnGameOver
      else if distToStation (ship (snd (physics inp w))) < DOCKING_RANGE
              \<and> fst (physics inp w) < 0.5
           then Some (OnDock (ship (snd (frame inp w))))
           else None)"
  by (cases inp w rule: frame_cases) (auto simp: distToStation_def)

lemma frame_position:
  "fst (frame inp w) \<noteq> Some OnGameOver \<Longrightarrow>
     position (ship (snd (frame inp w))) = position (ship (snd (physics inp w)))"
  by (cases inp w rule: frame_cases) simp_all

text \<open>
  Claim C7. The game-over callback is invoked in a frame exactly when, after the thrust,
  drag, speed cap and movement of that frame, the fuel is not positive and both velocity
  components are below 0.1 in magnitude; the world it leaves is the one after those
  steps. A frame that starts with fuel and does not thrust therefore never invokes it.
  Once it is invoked the mission has ended for good: no further input changes the result.
\<close>

theorem game_over_only_when_stalled:
  "(fst (frame inp w) = Some OnGameOver \<longleftrightarrow>
      currentFuel (ship (snd (physics inp w))) \<le> 0
      \<and> \<bar>x (velocity (ship (snd (physics inp w))))\<bar> < 0.1
      \<and> \<bar>y (velocity (ship (snd (physics inp w))))\<bar> < 0.1)
   \<and> (fst (frame inp w) = Some OnGameOver \<longrightarrow>
        snd (frame inp w) = snd (physics inp w)
        \<and> currentFuel (ship (snd (frame inp w))) \<le> 0
        \<and> \<bar>x (velocity (ship (snd (frame inp w))))\<bar> < 0.1
        \<and> \<bar>y (velocity (ship (snd (frame inp w))))\<bar> < 0.1)
   \<and> (0 < currentFuel (ship w) \<and> \<not> isThrusting inp \<longrightarrow> fst (frame inp w) \<noteq> Some OnGameOver)
   \<and> (run inps w = Ended OnGameOver w' \<longrightarrow> run (inps @ later) w = Ended OnGameOver w')"
proof -
  have iff: "fst (frame inp w) = Some OnGameOver \<longleftrightarrow> gameOverCheck (ship (snd (physics inp w)))"
    by (simp add: frame_signal)
  have same: "fst (frame inp w) = Some OnGameOver \<longrightarrow> snd (frame inp w) = snd (physics inp w)"
    by (cases inp w rule: frame_cases) simp_all
  have fuel: "0 < currentFuel (ship w) \<and> \<not> isThrusting inp \<longrightarrow>
      \<not> gameOverCheck (ship (snd (physics inp w)))"
    by (simp add: gameOverCheck_def physics_fuel)
  from iff same fuel run_append [of inps w OnGameOver w' later] show ?thesis
    by (auto simp: gameOverCheck_def)
qed

lemma stranded_physics:
  "physics quietInput (newMission strandedShip []) = (0, newMission strandedShip [])"
  by (simp add: physics_def shakeDecay_def applyRotation_def applyThrust_def applyDrag_def
      capSpeed_def updatePosition_def speedOf_def isThrusting_def Let_def
      quietInput_def newMission_def strandedShip_def initialPlayerState_def
      INITIAL_SHIP_CONFIG_def STATION_POSITION_def)

lemma stranded_frame:
  "frame quietInput (newMission strandedShip []) = (Some OnGameOver, newMission strandedShip [])"
  by (simp add: frame_def stranded_physics gameOverCheck_def)
     (simp add: newMission_def strandedShip_def initialPlayerState_def)

theorem game_over_only_when_stalled_witness:
  "currentFuel (ship (snd (physics quietInput (newMission strandedShip [])))) \<le> 0
   \<and> \<bar>x (velocity (ship (snd (physics quietInput (newMission strandedShip [])))))\<bar> < 0.1
   \<and> \<bar>y (velocity (ship (snd (physics quietInput (newMission strandedShip [])))))\<bar> < 0.1
   \<and> fst (frame quietInput (newMission strandedShip [])) = Some OnGameOver
   \<and> run [quietInput] (newMission strandedShip []) = Ended OnGameOver (newMission strandedShip [])
   \<and> run ([quietInput] @ [thrustInput]) (newMission strandedShip [])
       = Ended OnGameOver (newMission strandedShip [])
   \<and> 0 < currentFuel (ship (newMission (handleLaunch initialPlayerState) []))
   \<and> \<not> isThrusting quietInput
   \<and> fst (frame quietInput (newMission (handleLaunch initialPlayerState) [])) \<noteq> Some OnGameOver"
proof -
  have r: "run [quietInput] (newMission strandedShip []) = Ended OnGameOver (newMission strandedShip [])"
    by (simp add: stranded_frame)
  have v: "currentFuel (ship (snd (physics quietInput (newMission strandedShip [])))) \<le> 0
   \<and> \<bar>x (velocity (ship (snd (physics quietInput (newMission strandedShip [])))))\<bar> < 0.1
   \<and> \<bar>y (velocity (ship (snd (physics quietInput (newMission strandedShip [])))))\<bar> < 0.1"
    by (simp add: stranded_physics) (simp add: newMission_def strandedShip_def initialPlayerState_def)
  have f: "0 < currentFuel (ship (newMission (handleLaunch initialPlayerState) []))"
    by (simp add: newMission_def handleLaunch_def initialPlayerState_def INITIAL_SHIP_CONFIG_def)
  have t: "\<not> isThrusting quietInput"
    by (simp add: isThrusting_def quietInput_def)
  from game_over_only_when_stalled
         [where inp = quietInput and w = "newMission strandedShip []" and inps = "[quietInput]"
            and w' = "newMission strandedShip []" and later = "[thrustInput]"]
       game_over_only_when_stalled
         [where inp = quietInput and w = "newMission (handleLaunch initialPlayerState) []"
            and inps = "[]"]
       r v f t
  show ?thesis by blast
qed

text \<open>The speed of the ship once the cap has been applied.\<close>

lemma capped_speed:
  assumes "0 \<le> maxSpeed (shipConfig s)"
  shows "speedOf (updatePosition (capSpeed (speedOf s) s)) = min (speedOf s) (maxSpeed (shipConfig s))"
proof (cases "speedOf s > maxSpeed (shipConfig s)")
  case False
  then show ?thesis
    by (simp add: capSpeed_def updatePosition_def speedOf_def)
next
  case True
  define m where "m = maxSpeed (shipConfig s)"
  define v where "v = speedOf s"
  define a where "a = x (velocity s)"
  define b where "b = y (velocity s)"
  from True assms have vpos: "0 < v" and mv: "m < v" and m0: "0 \<le> m"
    by (simp_all add: m_def v_def)
  have vsq: "v\<^sup>2 = a\<^sup>2 + b\<^sup>2"
    unfolding v_def speedOf_def a_def b_def
    by (simp add: real_sqrt_pow2_iff)
  have "(a / v * m)\<^sup>2 + (b / v * m)\<^sup>2 = (m / v)\<^sup>2 * (a\<^sup>2 + b\<^sup>2)"
    by (simp add: power_mult_distrib power_divide algebra_simps add_divide_distrib)
  also have "\<dots> = m\<^sup>2"
    using vpos by (simp add: vsq [symmetric] power_divide)
  finally have "sqrt ((a / v * m)\<^sup>2 + (b / v * m)\<^sup>2) = m"
    using m0 by simp
  with True show ?thesis
    by (simp add: capSpeed_def updatePosition_def speedOf_def m_def v_def a_def b_def)
qed

lemma physics_speed:
  assumes "0 \<le> maxSpeed (shipConfig (ship w))"
  shows "speedOf (ship (snd (physics inp w))) =
           min (fst (physics inp w)) (maxSpeed (shipConfig (ship w)))"
proof -
  let ?s = "applyDrag (ship (applyThrust inp ((shakeDecay w)\<lparr> ship := applyRotation inp (ship (shakeDecay w)) \<rparr>)))"
  have c: "maxSpeed (shipConfig ?s) = maxSpeed (shipConfig (ship w))"
    by (simp add: applyDrag_def)
  have "physics inp w = (speedOf ?s,
          (applyThrust inp ((shakeDecay w)\<lparr> ship := applyRotation inp (ship (shakeDecay w)) \<rparr>))
            \<lparr> ship := updatePosition (capSpeed (speedOf ?s) ?s) \<rparr>)"
    by (simp add: physics_def Let_def)
  then show ?thesis
    using capped_speed [of ?s] assms c by simp
qed

lemma frame_velocity:
  "fst (frame inp w) \<noteq> Some OnGameOver \<Longrightarrow>
     velocity (ship (snd (frame inp w))) = velocity (ship (snd (physics inp w)))"
  by (cases inp w rule: frame_cases) simp_all

text \<open>
  Claim C6, as stated, fails where the game-over check comes first: a ship at rest with an
  empty tank, 100 units from the station, is inside the docking range at speed 0, and the
  frame reports game over instead of docking.
\<close>

theorem dock_counterexample:
  "distToStation (ship (newMission strandedShip [])) < DOCKING_RANGE
   \<and> speedOf (ship (newMission strandedShip [])) < 0.5
   \<and> frame quietInput (newMission strandedShip []) = (Some OnGameOver, newMission strandedShip [])"
  by (simp add: stranded_frame)
     (simp add: distToStation_def speedOf_def DOCKING_RANGE_def newMission_def strandedShip_def
        initialPlayerState_def sqrt_less_iff)

text \<open>
  Claim C6, amended. In a frame that the game-over check does not end, the dock callback
  is invoked exactly when the ship is within the docking range of the station origin and
  the speed the frame computed (after the drag, before the cap) is below 0.5; the test
  \<^verbatim>\<open>speed < 2\<close> adds nothing. The callback receives the ship as the frame leaves it, and
  the mission ends with that frame. With a speed cap of at least 0.5, as in every
  configuration of the game, the computed speed is below 0.5 exactly when the speed of
  that ship is.
\<close>

theorem dock_when_slow_in_range:
  "((\<exists>s. fst (frame inp w) = Some (OnDock s)) \<longleftrightarrow>
       fst (frame inp w) \<noteq> Some OnGameOver
       \<and> distToStation (ship (snd (frame inp w))) < DOCKING_RANGE
       \<and> fst (physics inp w) < 0.5)
   \<and> (fst (frame inp w) = Some (OnDock s) \<longrightarrow>
        s = ship (snd (frame inp w))
        \<and> run (inp # later) w = Ended (OnDock s) (snd (frame inp w)))
   \<and> (fst (frame inp w) \<noteq> Some OnGameOver \<and> 0.5 \<le> maxSpeed (shipConfig (ship w)) \<longrightarrow>
        (fst (physics inp w) < 0.5) = (speedOf (ship (snd (frame inp w))) < 0.5))"
proof -
  have pos: "fst (frame inp w) \<noteq> Some OnGameOver \<longrightarrow>
      distToStation (ship (snd (frame inp w))) = distToStation (ship (snd (physics inp w)))"
    using frame_position [of inp w] by (simp add: distToStation_def)
  have iff: "(\<exists>s. fst (frame inp w) = Some (OnDock s)) \<longleftrightarrow>
       fst (frame inp w) \<noteq> Some OnGameOver
       \<and> distToStation (ship (snd (frame inp w))) < DOCKING_RANGE
       \<and> fst (physics inp w) < 0.5"
    using pos by (auto simp: frame_signal [of inp w] split: if_splits)
  have live: "fst (frame inp w) = Some (OnDock s) \<longrightarrow>
        s = ship (snd (frame inp w))
        \<and> run (inp # later) w = Ended (OnDock s) (snd (frame inp w))"
    by (cases inp w rule: frame_cases) simp_all
  have sp: "fst (frame inp w) \<noteq> Some OnGameOver \<and> 0.5 \<le> maxSpeed (shipConfig (ship w)) \<longrightarrow>
        (fst (physics inp w) < 0.5) = (speedOf (ship (snd (frame inp w))) < 0.5)"
  proof
    assume a: "fst (frame inp w) \<noteq> Some OnGameOver \<and> 0.5 \<le> maxSpeed (shipConfig (ship w))"
    then have "speedOf (ship (snd (frame inp w))) = speedOf (ship (snd (physics inp w)))"
      using frame_velocity [of inp w] by (simp add: speedOf_def)
    also have "\<dots> = min (fst (physics inp w)) (maxSpeed (shipConfig (ship w)))"
      using a by (intro physics_speed) simp
    finally show "(fst (physics inp w) < 0.5) = (speedOf (ship (snd (frame inp w))) < 0.5)"
      using a by auto
  qed
  from iff live sp show ?thesis by blast
qed

text \<open>The ship as the game first places it: at rest, 100 units east and south of the station.\<close>

lemma start_physics:
  "physics quietInput (newMission initialPlayerState []) = (0, newMission initialPlayerState [])"
  by (simp add: physics_def shakeDecay_def applyRotation_def applyThrust_def applyDrag_def
      capSpeed_def updatePosition_def speedOf_def isThrusting_def Let_def
      quietInput_def newMission_def initialPlayerState_def
      INITIAL_SHIP_CONFIG_def STATION_POSITION_def)

lemma start_logic:
  "logic quietInput (newMission initialPlayerState []) =
     (newMission (initialPlayerState\<lparr> currentFuel := 999.95 \<rparr>) [])
       \<lparr> camera := \<lparr> x = -300, y = -200 \<rparr> \<rparr>"
  by (simp add: logic_def lootLogic_def laser_def combat_def mineAsteroid_def preCombat_def
      updateAlien_def spawnAlien_def cameraFollow_def idleFuel_def ALIEN_SPAWN_RATE_def
      quietInput_def newMission_def initialPlayerState_def
      INITIAL_SHIP_CONFIG_def STATION_POSITION_def)

lemma start_frame:
  "frame quietInput (newMission initialPlayerState []) =
     (Some (OnDock (initialPlayerState\<lparr> currentFuel := 999.95 \<rparr>)),
      (newMission (initialPlayerState\<lparr> currentFuel := 999.95 \<rparr>) [])
        \<lparr> camera := \<lparr> x = -300, y = -200 \<rparr> \<rparr>)"
  by (simp add: frame_def start_physics start_logic)
     (simp add: gameOverCheck_def distToStation_def DOCKING_RANGE_def newMission_def
        initialPlayerState_def INITIAL_SHIP_CONFIG_def STATION_POSITION_def sqrt_less_iff)

theorem dock_when_slow_in_range_witness:
  "fst (frame quietInput (newMission initialPlayerState [])) \<noteq> Some OnGameOver
   \<and> distToStation (ship (snd (frame quietInput (newMission initialPlayerState [])))) < DOCKING_RANGE
   \<and> fst (physics quietInput (newMission initialPlayerState [])) < 0.5
   \<and> 0.5 \<le> maxSpeed (shipConfig (ship (newMission initialPlayerState [])))
   \<and> fst (frame quietInput (newMission initialPlayerState []))
       = Some (OnDock (initialPlayerState\<lparr> currentFuel := 999.95 \<rparr>))
   \<and> initialPlayerState\<lparr> currentFuel := 999.95 \<rparr>
       = ship (snd (frame quietInput (newMission initialPlayerState [])))
   \<and> run [quietInput, thrustInput] (newMission initialPlayerState [])
       = Ended (OnDock (initialPlayerState\<lparr> currentFuel := 999.95 \<rparr>))
           (snd (frame quietInput (newMission initialPlayerState [])))
   \<and> speedOf (ship (snd (frame quietInput (newMission initialPlayerState [])))) < 0.5"
proof -
  have a: "fst (frame quietInput (newMission initialPlayerState []))
             = Some (OnDock (initialPlayerState\<lparr> currentFuel := 999.95 \<rparr>))"
    by (simp add: start_frame)
  have b: "fst (physics quietInput (newMission initialPlayerState [])) < 0.5"
    by (simp add: start_physics)
  have c: "0.5 \<le> maxSpeed (shipConfig (ship (newMission initialPlayerState [])))"
    by (simp add: newMission_def initialPlayerState_def INITIAL_SHIP_CONFIG_def)
  from dock_when_slow_in_range
         [where inp = quietInput and w = "newMission initialPlayerState []"
            and s = "initialPlayerState\<lparr> currentFuel := 999.95 \<rparr>" and later = "[thrustInput]"]
       a b c
  show ?thesis by auto
qed

section \<open>Mining an asteroid\<close>


lemma mining_physics:
  "physics mineInput (miningWorld f h) = (0, (miningWorld f h)\<lparr> shake := 1.8 \<rparr>)"
  by (simp add: physics_def shakeDecay_def applyRotation_def applyThrust_def applyDrag_def
      capSpeed_def updatePosition_def speedOf_def isThrusting_def Let_def
      mineInput_def quietInput_def miningWorld_def initialPlayerState_def
      INITIAL_SHIP_CONFIG_def)

lemma mining_preCombat:
  "0 < f \<Longrightarrow>
   preCombat mineInput ((miningWorld f h)\<lparr> shake := 1.8 \<rparr>)
     = (miningWorld (f - 0.05) h)\<lparr> shake := 1.8 \<rparr>"
  by (simp add: preCombat_def updateAlien_def spawnAlien_def cameraFollow_def idleFuel_def
      ALIEN_SPAWN_RATE_def mineInput_def quietInput_def miningWorld_def initialPlayerState_def
      INITIAL_SHIP_CONFIG_def)

lemma mining_combat:
  "0 < f \<Longrightarrow>
   combat mineInput ((miningWorld f h)\<lparr> shake := 1.8 \<rparr>)
     = (False, Some 0, (miningWorld f h)\<lparr> shake := 1.8 \<rparr>)"
  by (simp add: combat_def attackAlien_def canMine_def worldMouseX_def worldMouseY_def
      sqrt_le_iff mineInput_def quietInput_def miningWorld_def initialPlayerState_def
      INITIAL_SHIP_CONFIG_def sampleAsteroid_def)

lemma mining_hit:
  "1.5 < h \<Longrightarrow>
   hitAsteroid mineInput 0 ((miningWorld f h)\<lparr> shake := 1.8 \<rparr>)
     = (miningWorld (f - 0.25) (h - 1.5))
         \<lparr> asteroids := [sampleAsteroid\<lparr> health := h - 1.5, isHeating := True \<rparr>] \<rparr>"
  by (simp add: hitAsteroid_def sparks_def Let_def
      mineInput_def quietInput_def miningWorld_def initialPlayerState_def
      INITIAL_SHIP_CONFIG_def sampleAsteroid_def)

lemma mining_target:
  assumes "0.05 < f"
  shows "frameTarget mineInput (miningWorld f h) = Some 0"
proof -
  from assms have f: "0 < f" "0 < f - 0.05" by simp_all
  have g: "\<not> gameOverCheck (ship ((miningWorld f h)\<lparr> shake := 1.8 \<rparr>))"
    using f by (simp add: gameOverCheck_def miningWorld_def)
  show ?thesis
    using g mining_preCombat [OF f(1), of h] mining_combat [OF f(2), of h]
    by (simp add: frameTarget_def mining_physics)
qed

lemma mining_frame:
  assumes "0.05 < f" "1.5 < h"
  shows "frame mineInput (miningWorld f h) = (None, miningWorld (f - 0.3) (h - 1.5))"
proof -
  from assms have f: "0 < f" "0 < f - 0.05" by simp_all
  have g: "\<not> gameOverCheck (ship ((miningWorld f h)\<lparr> shake := 1.8 \<rparr>))"
    using f by (simp add: gameOverCheck_def miningWorld_def)
  have l: "logic mineInput ((miningWorld f h)\<lparr> shake := 1.8 \<rparr>)
     = (miningWorld (f - 0.3) (h - 1.5))
         \<lparr> asteroids := [sampleAsteroid\<lparr> health := h - 1.5, isHeating := True \<rparr>] \<rparr>"
    using mining_preCombat [OF f(1), of h] mining_combat [OF f(2), of h]
      mining_hit [OF assms(2), of "f - 0.05"]
    by (simp add: logic_def laser_def mineAsteroid_def)
       (simp add: lootLogic_def miningWorld_def)
  show ?thesis
    using g l
    by (simp add: frame_def mining_physics)
       (simp add: renderEffects_def distToStation_def DOCKING_RANGE_def sqrt_less_iff
          miningWorld_def sampleAsteroid_def)
qed

lemma mining_frames:
  "0.3 * real k < f \<Longrightarrow> 1.5 * real k < h \<Longrightarrow>
     mining 0 (replicate k mineInput) (miningWorld f h)
     \<and> after (replicate k mineInput) (miningWorld f h)
         = miningWorld (f - 0.3 * real k) (h - 1.5 * real k)"
proof (induction k arbitrary: f h)
  case 0
  then show ?case by simp
next
  case (Suc k)
  from Suc.prems have f: "0.05 < f" and h: "1.5 < h"
    by (simp_all add: algebra_simps)
  note fr = mining_frame [OF f h]
  note tg = mining_target [OF f, of h]
  from Suc.prems have "0.3 * real k < f - 0.3" "1.5 * real k < h - 1.5"
    by (simp_all add: algebra_simps)
  note IH = Suc.IH [OF this]
  have "mining 0 (replicate (Suc k) mineInput) (miningWorld f h)"
    using IH fr tg by simp
  moreover have "after (replicate (Suc k) mineInput) (miningWorld f h)
         = miningWorld (f - 0.3 * real (Suc k)) (h - 1.5 * real (Suc k))"
  proof -
    have "after (replicate (Suc k) mineInput) (miningWorld f h)
            = after (replicate k mineInput) (miningWorld (f - 0.3) (h - 1.5))"
      using fr by simp
    also have "\<dots> = miningWorld (f - 0.3 - 0.3 * real k) (h - 1.5 - 1.5 * real k)"
      by (rule conjunct2 [OF IH])
    also have "\<dots> = miningWorld (f - 0.3 * real (Suc k)) (h - 1.5 * real (Suc k))"
      by (rule arg_cong2 [where f = miningWorld]) (simp_all add: algebra_simps)
    finally show ?thesis .
  qed
  ultimately show ?case by blast
qed


section \<open>One laser target per frame\<close>

lemma moveAlien_hp [simp]: "hp (moveAlien s a) = hp a"
  by (simp add: moveAlien_def Let_def)

lemma vampiricDrain_hp:
  "vampiricDrain inp d a s ps = (a', s', ps') \<Longrightarrow> hp a' = hp a"
  by (auto simp: vampiricDrain_def Let_def split: if_splits)

lemma updateAlien_hp:
  "alien w = Some a \<Longrightarrow> \<exists>a'. alien (updateAlien inp w) = Some a' \<and> hp a' = hp a"
proof (cases inp w rule: updateAlien_cases)
  case none
  assume "alien w = Some a"
  with none show ?thesis by simp
next
  case (some a0 a1 s' ps')
  assume "alien w = Some a"
  with some vampiricDrain_hp [OF some(2)] show ?thesis by simp
qed

lemma beforeLaser_alien:
  "alien w = Some a \<Longrightarrow> \<exists>a'. alien (beforeLaser inp w) = Some a' \<and> hp a' = hp a"
proof -
  assume a: "alien w = Some a"
  let ?v = "cameraFollow inp ((snd (physics inp w))\<lparr> ship := idleFuel (ship (snd (physics inp w))) \<rparr>)"
  from a have "alien (spawnAlien inp ?v) = Some a"
    by (simp add: spawnAlien_def)
  from updateAlien_hp [OF this] show ?thesis
    by (simp add: beforeLaser_def preCombat_def)
qed

lemma renderEffects_health [simp]:
  "map health (asteroids (renderEffects w)) = map health (asteroids w)"
  by (simp add: renderEffects_def)

lemma combat_attack:
  "fst (combat inp w) = (isDown inp \<and> currentFuel (ship w) > 0 \<and> alienInSight inp w)"
  by (auto simp: combat_def attackAlien_def alienInSight_def split: option.splits)

lemma frameAttack_eq:
  "frameAttack inp w =
     (\<not> gameOverCheck (ship (snd (physics inp w))) \<and> isDown inp
      \<and> 0 < currentFuel (ship (beforeLaser inp w)) \<and> alienInSight inp (beforeLaser inp w))"
  by (auto simp: frameAttack_def beforeLaser_def combat_attack split: prod.splits)

lemma frameTarget_find:
  "frameTarget inp w =
     (if \<not> gameOverCheck (ship (snd (physics inp w))) \<and> isDown inp
         \<and> 0 < currentFuel (ship (beforeLaser inp w)) \<and> \<not> alienInSight inp (beforeLaser inp w)
      then findTarget (worldMouseX inp (beforeLaser inp w)) (worldMouseY inp (beforeLaser inp w))
             (ship (beforeLaser inp w)) (asteroids w)
      else None)"
  by (simp add: frameTarget_eq beforeLaser_def combat_target)

lemma frame_over_iff:
  "fst (frame inp w) = Some OnGameOver \<longleftrightarrow> gameOverCheck (ship (snd (physics inp w)))"
  by (cases inp w rule: frame_cases) simp_all

lemma laser_alien_after:
  "alien (laser inp w) =
     (if isDown inp \<and> 0 < currentFuel (ship w) \<and> alienInSight inp w
      then (case alien w of
              None \<Rightarrow> None
            | Some a \<Rightarrow>
                if hp a - miningPower (shipConfig (ship w)) \<le> 0 then None
                else Some (a\<lparr> hp := hp a - miningPower (shipConfig (ship w)) \<rparr>))
      else alien w)"
proof (cases inp w rule: laser_cases)
  case idle
  then show ?thesis by auto
next
  case (alien a)
  then have "alienInSight inp w" by (simp add: alienInSight_def)
  with alien show ?thesis by (simp add: hitAlien_alien)
next
  case miss
  then show ?thesis by simp
next
  case (asteroid i)
  then show ?thesis by simp
qed

lemma frame_alien:
  "alien (snd (frame inp w)) =
     (if gameOverCheck (ship (snd (physics inp w))) then alien w else alien (afterLaser inp w))"
  by (cases inp w rule: frame_cases)
     (simp_all add: logic_def lootLogic_fields afterLaser_def beforeLaser_def)

lemma spawnAlien_alien:
  "alien (spawnAlien inp w) = alien w
   \<or> (alien w = None \<and> (\<exists>a. alien (spawnAlien inp w) = Some a \<and> hp a = ALIEN_HP))"
  by (simp add: spawnAlien_def Let_def split: option.splits)

lemma beforeLaser_fresh:
  "alien w = None \<Longrightarrow>
     alien (beforeLaser inp w) = None
     \<or> (\<exists>a. alien (beforeLaser inp w) = Some a \<and> hp a = ALIEN_HP)"
proof -
  assume n: "alien w = None"
  let ?v = "cameraFollow inp ((snd (physics inp w))\<lparr> ship := idleFuel (ship (snd (physics inp w))) \<rparr>)"
  have b: "beforeLaser inp w = updateAlien inp (spawnAlien inp ?v)"
    by (simp add: beforeLaser_def preCombat_def)
  from n have "alien ?v = None" by simp
  with spawnAlien_alien [of inp ?v]
  consider "alien (spawnAlien inp ?v) = None"
    | a where "alien (spawnAlien inp ?v) = Some a" "hp a = ALIEN_HP"
    by auto
  then show ?thesis
  proof cases
    case 1
    then have "updateAlien inp (spawnAlien inp ?v) = spawnAlien inp ?v"
      by (simp add: updateAlien_def)
    with 1 b show ?thesis by simp
  next
    case (2 a)
    from updateAlien_hp [OF 2(1), of inp] 2(2) b show ?thesis by auto
  qed
qed

lemma frame_healths:
  "map health (asteroids (snd (frame inp w))) =
     (case frameTarget inp w of
        None \<Rightarrow> map health (asteroids w)
      | Some i \<Rightarrow>
          if health (asteroids w ! i) - miningPower (shipConfig (ship w)) \<le> 0
          then removeAt i (map health (asteroids w))
          else (map health (asteroids w))
                 [i := health (asteroids w ! i) - miningPower (shipConfig (ship w))])"
proof -
  have h: "map health asts = map (\<lambda>r. snd (snd (snd r))) (map rock asts)" for asts
    by (simp add: rock_def)
  show ?thesis
  proof (cases "frameTarget inp w")
    case None
    then show ?thesis
      using frame_rocks [of inp w] by (simp add: h minedRocks_def)
  next
    case (Some i)
    from frameTarget_in_range [OF Some] have i: "i < length (asteroids w)" .
    then have r: "map rock (asteroids w) ! i = rock (asteroids w ! i)" by simp
    show ?thesis
      unfolding h frame_rocks
      using Some i
      by (simp add: minedRocks_def rock_def map_removeAt map_update)
  qed
qed

text \<open>
  Claim C4. In a frame at most one entity receives laser damage, one application of
  \<^verbatim>\<open>miningPower\<close>, and only with the mouse button down and fuel left when the laser block
  starts. The frame attacks the alien exactly when it is not ended by the game-over check,
  the button is down, fuel is left, and the alien passes the aim-assist test (cursor less
  than 50 units from its centre, alien less than \<^verbatim>\<open>miningRange\<close> from the laser origin
  30 units ahead of the ship); then no asteroid is a target. Otherwise the mining target
  is the first asteroid of the array whose circle contains the cursor and which is within
  \<^verbatim>\<open>miningRange\<close> of the ship, if there is one. Against the world the frame started
  from, the world it leaves has every asteroid at its old health, except that the target
  has lost \<^verbatim>\<open>miningPower\<close> once and is removed if no health is left; and the alien has
  its old hit points, less \<^verbatim>\<open>miningPower\<close> once if it was attacked, and is gone if
  none are left.
\<close>

theorem one_laser_target_per_frame:
  "\<not> (frameAttack inp w \<and> frameTarget inp w \<noteq> None)
   \<and> (frameAttack inp w \<longleftrightarrow>
        fst (frame inp w) \<noteq> Some OnGameOver \<and> isDown inp
        \<and> 0 < currentFuel (ship (beforeLaser inp w))
        \<and> alienInSight inp (beforeLaser inp w))
   \<and> frameTarget inp w =
        (if fst (frame inp w) \<noteq> Some OnGameOver \<and> isDown inp
            \<and> 0 < currentFuel (ship (beforeLaser inp w))
            \<and> \<not> alienInSight inp (beforeLaser inp w)
         then findTarget (worldMouseX inp (beforeLaser inp w)) (worldMouseY inp (beforeLaser inp w))
                (ship (beforeLaser inp w)) (asteroids w)
         else None)
   \<and> (frameTarget inp w = Some i \<longrightarrow>
        i < length (asteroids w)
        \<and> canMine (worldMouseX inp (beforeLaser inp w)) (worldMouseY inp (beforeLaser inp w))
             (ship (beforeLaser inp w)) (asteroids w ! i)
        \<and> (\<forall>j < i. \<not> canMine (worldMouseX inp (beforeLaser inp w))
                        (worldMouseY inp (beforeLaser inp w))
                        (ship (beforeLaser inp w)) (asteroids w ! j)))
   \<and> (findTarget mx my s asts = None \<longleftrightarrow> (\<forall>j < length asts. \<not> canMine mx my s (asts ! j)))
   \<and> map health (asteroids (snd (frame inp w))) =
        (case frameTarget inp w of
           None \<Rightarrow> map health (asteroids w)
         | Some i \<Rightarrow>
             if health (asteroids w ! i) - miningPower (shipConfig (ship w)) \<le> 0
             then removeAt i (map health (asteroids w))
             else (map health (asteroids w))
                    [i := health (asteroids w ! i) - miningPower (shipConfig (ship w))])
   \<and> alien (snd (frame inp w)) =
        (if fst (frame inp w) = Some OnGameOver then alien w
         else if frameAttack inp w
         then (case alien (beforeLaser inp w) of
                 None \<Rightarrow> None
               | Some a \<Rightarrow>
                   if hp a - miningPower (shipConfig (ship w)) \<le> 0 then None
                   else Some (a\<lparr> hp := hp a - miningPower (shipConfig (ship w)) \<rparr>))
         else alien (beforeLaser inp w))
   \<and> (alien w = Some a0 \<longrightarrow>
        map_option hp (alien (snd (frame inp w))) =
          (if frameAttack inp w
           then (if hp a0 - miningPower (shipConfig (ship w)) \<le> 0 then None
                 else Some (hp a0 - miningPower (shipConfig (ship w))))
           else Some (hp a0)))
   \<and> (alien w = None \<longrightarrow>
        alien (snd (frame inp w)) = None
        \<or> map_option hp (alien (snd (frame inp w))) =
            Some (if frameAttack inp w then ALIEN_HP - miningPower (shipConfig (ship w))
                  else ALIEN_HP))
   \<and> (alienInSight inp v \<longleftrightarrow>
        (\<exists>a. alien v = Some a
           \<and> sqrt ((worldMouseX inp v - x a)\<^sup>2 + (worldMouseY inp v - y a)\<^sup>2) < 50
           \<and> sqrt ((x a - (x (position (ship v)) + cos (rotation (ship v)) * 30))\<^sup>2
                   + (y a - (y (position (ship v)) + sin (rotation (ship v)) * 30))\<^sup>2)
               < miningRange (shipConfig (ship v))))
   \<and> (canMine mx my s ast \<longleftrightarrow>
        (mx - x ast)\<^sup>2 + (my - y ast)\<^sup>2 < (radius ast)\<^sup>2
        \<and> sqrt ((x ast - x (position s))\<^sup>2 + (y ast - y (position s))\<^sup>2)
            \<le> miningRange (shipConfig s))
   \<and> worldMouseX inp (beforeLaser inp w)
        = mouseX inp + (x (position (ship (beforeLaser inp w))) - width inp / 2)
   \<and> worldMouseY inp (beforeLaser inp w)
        = mouseY inp + (y (position (ship (beforeLaser inp w))) - height inp / 2)"
proof -
  let ?wl = "beforeLaser inp w"
  let ?p = "miningPower (shipConfig (ship w))"
  have cfg: "shipConfig (ship ?wl) = shipConfig (ship w)"
    by (simp add: beforeLaser_def)
  have over: "fst (frame inp w) = Some OnGameOver \<longleftrightarrow> gameOverCheck (ship (snd (physics inp w)))"
    by (rule frame_over_iff)
  have att: "frameAttack inp w \<longleftrightarrow>
        fst (frame inp w) \<noteq> Some OnGameOver \<and> isDown inp
        \<and> 0 < currentFuel (ship ?wl) \<and> alienInSight inp ?wl"
    by (simp add: frameAttack_eq over)
  have tgt: "frameTarget inp w =
        (if fst (frame inp w) \<noteq> Some OnGameOver \<and> isDown inp
            \<and> 0 < currentFuel (ship ?wl) \<and> \<not> alienInSight inp ?wl
         then findTarget (worldMouseX inp ?wl) (worldMouseY inp ?wl) (ship ?wl) (asteroids w)
         else None)"
    by (simp add: frameTarget_find over)
  have one: "\<not> (frameAttack inp w \<and> frameTarget inp w \<noteq> None)"
    using att tgt by auto
  have first: "frameTarget inp w = Some i \<longrightarrow>
        i < length (asteroids w)
        \<and> canMine (worldMouseX inp ?wl) (worldMouseY inp ?wl) (ship ?wl) (asteroids w ! i)
        \<and> (\<forall>j < i. \<not> canMine (worldMouseX inp ?wl) (worldMouseY inp ?wl) (ship ?wl)
                        (asteroids w ! j))"
  proof
    assume "frameTarget inp w = Some i"
    with tgt have "findTarget (worldMouseX inp ?wl) (worldMouseY inp ?wl) (ship ?wl) (asteroids w)
                     = Some i"
      by (simp split: if_splits)
    from findTarget_Some [OF this]
    show "i < length (asteroids w)
        \<and> canMine (worldMouseX inp ?wl) (worldMouseY inp ?wl) (ship ?wl) (asteroids w ! i)
        \<and> (\<forall>j < i. \<not> canMine (worldMouseX inp ?wl) (worldMouseY inp ?wl) (ship ?wl)
                        (asteroids w ! j))" .
  qed
  have none: "findTarget mx my s asts = None \<longleftrightarrow> (\<forall>j < length asts. \<not> canMine mx my s (asts ! j))"
    by (rule findTarget_None)
  note healths = frame_healths [of inp w]
  have al: "alien (snd (frame inp w)) =
        (if fst (frame inp w) = Some OnGameOver then alien w
         else if frameAttack inp w
         then (case alien ?wl of
                 None \<Rightarrow> None
               | Some a \<Rightarrow> if hp a - ?p \<le> 0 then None else Some (a\<lparr> hp := hp a - ?p \<rparr>))
         else alien ?wl)"
    using laser_alien_after [of inp ?wl, unfolded cfg]
    by (simp add: frame_alien over afterLaser_def frameAttack_eq)
  have old: "alien w = Some a0 \<longrightarrow>
        map_option hp (alien (snd (frame inp w))) =
          (if frameAttack inp w
           then (if hp a0 - ?p \<le> 0 then None else Some (hp a0 - ?p))
           else Some (hp a0))"
  proof
    assume a: "alien w = Some a0"
    from beforeLaser_alien [OF a, of inp] obtain a' where a': "alien ?wl = Some a'" "hp a' = hp a0"
      by blast
    show "map_option hp (alien (snd (frame inp w))) =
          (if frameAttack inp w
           then (if hp a0 - ?p \<le> 0 then None else Some (hp a0 - ?p))
           else Some (hp a0))"
    proof (cases "fst (frame inp w) = Some OnGameOver")
      case True
      with att have "\<not> frameAttack inp w" by simp
      with True a al show ?thesis by simp
    next
      case False
      with al a' show ?thesis by simp
    qed
  qed
  have fresh: "alien w = None \<longrightarrow>
        alien (snd (frame inp w)) = None
        \<or> map_option hp (alien (snd (frame inp w))) =
            Some (if frameAttack inp w then ALIEN_HP - ?p else ALIEN_HP)"
  proof
    assume n: "alien w = None"
    show "alien (snd (frame inp w)) = None
        \<or> map_option hp (alien (snd (frame inp w))) =
            Some (if frameAttack inp w then ALIEN_HP - ?p else ALIEN_HP)"
    proof (cases "fst (frame inp w) = Some OnGameOver")
      case True
      with n al show ?thesis by simp
    next
      case False
      from beforeLaser_fresh [OF n, of inp]
      consider "alien ?wl = None" | a where "alien ?wl = Some a" "hp a = ALIEN_HP"
        by auto
      then show ?thesis
      proof cases
        case 1
        with False al show ?thesis by simp
      next
        case (2 a)
        with False al show ?thesis by simp
      qed
    qed
  qed
  have sight: "alienInSight inp v \<longleftrightarrow>
        (\<exists>a. alien v = Some a
           \<and> sqrt ((worldMouseX inp v - x a)\<^sup>2 + (worldMouseY inp v - y a)\<^sup>2) < 50
           \<and> sqrt ((x a - (x (position (ship v)) + cos (rotation (ship v)) * 30))\<^sup>2
                   + (y a - (y (position (ship v)) + sin (rotation (ship v)) * 30))\<^sup>2)
               < miningRange (shipConfig (ship v)))"
    by (cases "alien v") (simp_all add: alienInSight_def aimAssist_def Let_def power2_eq_square)
  have can: "canMine mx my s ast \<longleftrightarrow>
        (mx - x ast)\<^sup>2 + (my - y ast)\<^sup>2 < (radius ast)\<^sup>2
        \<and> sqrt ((x ast - x (position s))\<^sup>2 + (y ast - y (position s))\<^sup>2)
            \<le> miningRange (shipConfig s)"
    by (simp add: canMine_def Let_def power2_eq_square)
  have cam: "camera ?wl = \<lparr> x = x (position (ship ?wl)) - width inp / 2,
                            y = y (position (ship ?wl)) - height inp / 2 \<rparr>"
    by (simp add: beforeLaser_def preCombat_def cameraFollow_def)
  have mouse: "worldMouseX inp ?wl = mouseX inp + (x (position (ship ?wl)) - width inp / 2)"
    "worldMouseY inp ?wl = mouseY inp + (y (position (ship ?wl)) - height inp / 2)"
    by (simp_all add: worldMouseX_def worldMouseY_def cam)
  from one att tgt first none healths al old fresh sight can mouse show ?thesis
    by blast
qed

text \<open>A frame of the sample world with the alien under the cursor, up to the laser block.\<close>

lemma alien_physics:
  "physics mineInput alienWorld = (0, alienWorld\<lparr> shake := 1.8 \<rparr>)"
  by (simp add: physics_def shakeDecay_def applyRotation_def applyThrust_def applyDrag_def
      capSpeed_def updatePosition_def speedOf_def isThrusting_def Let_def
      mineInput_def quietInput_def alienWorld_def miningWorld_def initialPlayerState_def
      INITIAL_SHIP_CONFIG_def)

lemma alien_beforeLaser:
  "beforeLaser mineInput alienWorld =
     (miningWorld 999.95 100)
       \<lparr> shake := 1.8,
         alien := Some (sampleAlien\<lparr> x := 1050, y := 0, drainTimer := 1, wobbleAngle := 0.1 \<rparr>) \<rparr>"
  by (simp add: beforeLaser_def alien_physics)
     (simp add: preCombat_def updateAlien_def spawnAlien_def cameraFollow_def idleFuel_def
        vampiricDrain_def moveAlien_def alienDistance_def Let_def
        ALIEN_DRAIN_RANGE_def ALIEN_DRAIN_INTERVAL_def ALIEN_SPEED_def
        less_sqrt_iff sqrt_less_iff
        mineInput_def quietInput_def alienWorld_def miningWorld_def sampleAlien_def
        initialPlayerState_def INITIAL_SHIP_CONFIG_def)

lemma alien_attacked: "frameAttack mineInput alienWorld"
  by (simp add: frameAttack_eq alien_physics alien_beforeLaser)
     (simp add: gameOverCheck_def alienInSight_def aimAssist_def worldMouseX_def worldMouseY_def
        Let_def sqrt_less_iff
        mineInput_def quietInput_def alienWorld_def miningWorld_def sampleAlien_def
        initialPlayerState_def INITIAL_SHIP_CONFIG_def)

theorem one_laser_target_per_frame_witness:
  "frameTarget mineInput (miningWorld 1000 100) = Some 0
   \<and> \<not> frameAttack mineInput (miningWorld 1000 100)
   \<and> map health (asteroids (miningWorld 1000 100)) = [100]
   \<and> map health (asteroids (snd (frame mineInput (miningWorld 1000 100)))) = [98.5]
   \<and> frameAttack mineInput alienWorld
   \<and> frameTarget mineInput alienWorld = None
   \<and> map_option hp (alien alienWorld) = Some 300
   \<and> map_option hp (alien (snd (frame mineInput alienWorld))) = Some 298.5
   \<and> map health (asteroids (snd (frame mineInput alienWorld))) = [100]
   \<and> \<not> isDown quietInput
   \<and> map_option hp (alien (snd (frame quietInput alienWorld))) = Some 300
   \<and> map health (asteroids (snd (frame quietInput alienWorld))) = [100]"
proof -
  let ?a = "sampleAlien\<lparr> x := 1050, y := 0, drainTimer := 0 \<rparr>"
  have t: "frameTarget mineInput (miningWorld 1000 100) = Some 0"
    by (rule mining_target) simp
  have v: "map health (asteroids (miningWorld 1000 100)) = [100]"
    "health (asteroids (miningWorld 1000 100) ! 0) = 100"
    "miningPower (shipConfig (ship (miningWorld 1000 100))) = 1.5"
    "alien (miningWorld 1000 100) = None"
    "map health (asteroids alienWorld) = [100]"
    "miningPower (shipConfig (ship alienWorld)) = 1.5"
    "alien alienWorld = Some ?a" "hp ?a = 300"
    "\<not> isDown quietInput"
    by (simp_all add: alienWorld_def miningWorld_def sampleAsteroid_def sampleAlien_def
        ALIEN_HP_def quietInput_def initialPlayerState_def INITIAL_SHIP_CONFIG_def)
  note m = one_laser_target_per_frame [where inp = mineInput and w = "miningWorld 1000 100"]
  note a = one_laser_target_per_frame [where inp = mineInput and w = alienWorld and ?a0.0 = ?a]
  note q = one_laser_target_per_frame [where inp = quietInput and w = alienWorld and ?a0.0 = ?a]
  have m1: "\<not> frameAttack mineInput (miningWorld 1000 100)"
    using m t by simp
  have "map health (asteroids (snd (frame mineInput (miningWorld 1000 100)))) =
        (case frameTarget mineInput (miningWorld 1000 100) of
           None \<Rightarrow> map health (asteroids (miningWorld 1000 100))
         | Some i \<Rightarrow>
             if health (asteroids (miningWorld 1000 100) ! i)
                  - miningPower (shipConfig (ship (miningWorld 1000 100))) \<le> 0
             then removeAt i (map health (asteroids (miningWorld 1000 100)))
             else (map health (asteroids (miningWorld 1000 100)))
                    [i := health (asteroids (miningWorld 1000 100) ! i)
                          - miningPower (shipConfig (ship (miningWorld 1000 100)))])"
    using m by blast
  then have m2: "map health (asteroids (snd (frame mineInput (miningWorld 1000 100)))) = [98.5]"
    using t v by simp
  have a1: "frameTarget mineInput alienWorld = None"
    using a alien_attacked by blast
  have "map_option hp (alien (snd (frame mineInput alienWorld))) =
          (if frameAttack mineInput alienWorld
           then (if hp ?a - miningPower (shipConfig (ship alienWorld)) \<le> 0 then None
                 else Some (hp ?a - miningPower (shipConfig (ship alienWorld))))
           else Some (hp ?a))"
    using a v(7) by blast
  then have a2: "map_option hp (alien (snd (frame mineInput alienWorld))) = Some 298.5"
    using alien_attacked v by simp
  have "map health (asteroids (snd (frame mineInput alienWorld))) =
        (case frameTarget mineInput alienWorld of
           None \<Rightarrow> map health (asteroids alienWorld)
         | Some i \<Rightarrow>
             if health (asteroids alienWorld ! i) - miningPower (shipConfig (ship alienWorld)) \<le> 0
             then removeAt i (map health (asteroids alienWorld))
             else (map health (asteroids alienWorld))
                    [i := health (asteroids alienWorld ! i)
                          - miningPower (shipConfig (ship alienWorld))])"
    using a by blast
  then have a3: "map health (asteroids (snd (frame mineInput alienWorld))) = [100]"
    using a1 v by simp
  have q0: "\<not> frameAttack quietInput alienWorld"
    using q v(9) by blast
  have q1: "frameTarget quietInput alienWorld = None"
  proof -
    have "frameTarget quietInput alienWorld =
        (if fst (frame quietInput alienWorld) \<noteq> Some OnGameOver \<and> isDown quietInput
            \<and> 0 < currentFuel (ship (beforeLaser quietInput alienWorld))
            \<and> \<not> alienInSight quietInput (beforeLaser quietInput alienWorld)
         then findTarget (worldMouseX quietInput (beforeLaser quietInput alienWorld))
                (worldMouseY quietInput (beforeLaser quietInput alienWorld))
                (ship (beforeLaser quietInput alienWorld)) (asteroids alienWorld)
         else None)"
      using q by blast
    with v(9) show ?thesis by simp
  qed
  have "map_option hp (alien (snd (frame quietInput alienWorld))) =
          (if frameAttack quietInput alienWorld
           then (if hp ?a - miningPower (shipConfig (ship alienWorld)) \<le> 0 then None
                 else Some (hp ?a - miningPower (shipConfig (ship alienWorld))))
           else Some (hp ?a))"
    using q v(7) by blast
  then have q2: "map_option hp (alien (snd (frame quietInput alienWorld))) = Some 300"
    using q0 v by simp
  have "map health (asteroids (snd (frame quietInput alienWorld))) =
        (case frameTarget quietInput alienWorld of
           None \<Rightarrow> map health (asteroids alienWorld)
         | Some i \<Rightarrow>
             if health (asteroids alienWorld ! i) - miningPower (shipConfig (ship alienWorld)) \<le> 0
             then removeAt i (map health (asteroids alienWorld))
             else (map health (asteroids alienWorld))
                    [i := health (asteroids alienWorld ! i)
                          - miningPower (shipConfig (ship alienWorld))])"
    using q by blast
  then have q3: "map health (asteroids (snd (frame quietInput alienWorld))) = [100]"
    using q1 v by simp
  from t m1 m2 alien_attacked a1 a2 a3 q2 q3 v show ?thesis
    by simp
qed

section \<open>The alien's drain in a frame\<close>

lemma moveAlien_keeps [simp]:
  "stolenCargo (moveAlien s a) = stolenCargo a"
  "drainTimer (moveAlien s a) = drainTimer a"
  by (simp_all add: moveAlien_def Let_def)

text \<open>The alien block reads the ship's position only.\<close>

lemma drainTick_position:
  "position s' = position s \<Longrightarrow> drainTick s' a = drainTick s a"
  by (simp add: drainTick_def moveAlien_def alienDistance_def)

text \<open>
  After its move the alien is draining exactly when the distance measured before the
  move is at most seven tenths of the drain range, which is within the drain range.
\<close>

lemma drainTick_iff:
  "drainTick s a \<longleftrightarrow>
     alienDistance s a \<le> ALIEN_DRAIN_RANGE * 0.7 \<and> drainTimer a + 1 \<ge> ALIEN_DRAIN_INTERVAL"
proof -
  have "state (moveAlien s a) = DRAINING \<longleftrightarrow> alienDistance s a \<le> ALIEN_DRAIN_RANGE * 0.7"
    by (simp add: moveAlien_def alienDistance_def Let_def not_less)
  moreover have "alienDistance s a \<le> ALIEN_DRAIN_RANGE * 0.7 \<Longrightarrow> alienDistance s a < ALIEN_DRAIN_RANGE"
    by (simp add: ALIEN_DRAIN_RANGE_def)
  ultimately show ?thesis
    by (auto simp: drainTick_def)
qed

text \<open>A drain tick of the alien block, on the world the block is given.\<close>

lemma updateAlien_tick:
  assumes "alien v = Some a0" and "drainTick (ship v) a0"
    and "0 \<le> random inp Steal 0 0" and "random inp Steal 0 0 < 1"
    and "\<forall>t. 0 \<le> cargo (ship v) t"
    and "avail = filter (\<lambda>t. cargo (ship v) t > 0) cargoKeys"
  shows "\<exists>a1. alien (updateAlien inp v) = Some a1
     \<and> drainTimer a1 = 0 \<and> hp a1 = hp a0
     \<and> (\<forall>t. 0 \<le> cargo (ship (updateAlien inp v)) t)
     \<and> set avail = {t. cargo (ship v) t > 0} \<and> distinct avail
     \<and> ((\<forall>t. cargo (ship v) t = 0) \<longrightarrow>
          cargo (ship (updateAlien inp v)) = cargo (ship v) \<and> stolenCargo a1 = stolenCargo a0)
     \<and> ((\<exists>t. cargo (ship v) t > 0) \<longrightarrow>
          (\<exists>k < length avail.
             real k / real (length avail) \<le> random inp Steal 0 0
             \<and> random inp Steal 0 0 < (real k + 1) / real (length avail)
             \<and> cargo (ship v) (avail ! k) > 0
             \<and> cargo (ship (updateAlien inp v))
                 = (cargo (ship v))(avail ! k := cargo (ship v) (avail ! k) - 1)
             \<and> cargoTotal (cargo (ship (updateAlien inp v))) = cargoTotal (cargo (ship v)) - 1
             \<and> (\<forall>u. stolenCount (stolenCargo a1) u =
                      (if u = avail ! k then stolenCount (stolenCargo a0) u + 1
                       else stolenCount (stolenCargo a0) u))))"
proof (cases inp v rule: updateAlien_cases)
  case none
  with assms(1) show ?thesis by simp
next
  case (some b0 a1 s' ps')
  with assms(1) have b0: "b0 = a0" by simp
  note v = some(2) [unfolded b0]
  have al: "alien (updateAlien inp v) = Some a1" and sh: "ship (updateAlien inp v) = s'"
    using some(3) by simp_all
  from assms(2) have t: "state (moveAlien (ship v) a0) = DRAINING"
    "alienDistance (ship v) a0 < ALIEN_DRAIN_RANGE"
    "drainTimer (moveAlien (ship v) a0) + 1 \<ge> ALIEN_DRAIN_INTERVAL"
    by (simp_all add: drainTick_def)
  have h: "hp a1 = hp a0"
    using vampiricDrain_hp [OF v] by simp
  note tick = vampiricDrain_tick [OF t assms(3) assms(4) assms(5) v assms(6),
      unfolded moveAlien_keeps, folded sh]
  from tick al h show ?thesis by blast
qed

lemma lootLogic_empty: "loot w = [] \<Longrightarrow> ship (lootLogic inp w) = ship w"
  by (simp add: lootLogic_def)

text \<open>The ship at the end of a frame that did not end at the game-over check.\<close>

lemma frame_ship:
  "\<not> gameOverCheck (ship (snd (physics inp w))) \<Longrightarrow>
     ship (snd (frame inp w)) = ship (lootLogic inp (afterLaser inp w))"
  by (cases inp w rule: frame_cases)
     (simp_all add: logic_def afterLaser_def beforeLaser_def)

text \<open>
  Claim C5. Take a frame that does not end at the game-over check, with an alien in the
  world, in which the alien block finds a drain tick: against the ship as this frame's
  physics has moved it, the alien is draining after its own move, the distance measured
  before that move is within the drain range, and the timer reaches the interval. The
  cargo counts are not negative. Then the alien the laser block finds has its timer at 0,
  and so has the alien the frame leaves; the laser can only take hit points from it or
  destroy it. No count of the hold is negative after the alien block, nor at the end of
  a frame in which the loot block finds no loot, as when there was none and the button
  is up. If every count is zero, the hold and the alien's stolen cargo are unchanged.
  Otherwise one unit of one type has moved from the hold to the alien's stolen cargo; the
  type is the \<open>k\<close>-th of the \<open>n\<close> types held, in the order of the cargo keys, where \<open>k\<close>
  is the index whose \<open>n\<close>-th part of the unit interval holds the random draw, so a
  uniform draw picks each type held with the same probability.
\<close>

theorem drain_tick:
  assumes "alien w = Some a0"
    and "fst (frame inp w) \<noteq> Some OnGameOver"
    and "drainTick (ship (snd (physics inp w))) a0"
    and "0 \<le> random inp Steal 0 0" and "random inp Steal 0 0 < 1"
    and "\<forall>t. 0 \<le> cargo (ship w) t"
    and "avail = filter (\<lambda>t. cargo (ship w) t > 0) cargoKeys"
  shows "\<exists>a1. alien (beforeLaser inp w) = Some a1
     \<and> drainTimer a1 = 0
     \<and> alien (snd (frame inp w)) =
         (if frameAttack inp w
          then (if hp a0 - miningPower (shipConfig (ship w)) \<le> 0 then None
                else Some (a1\<lparr> hp := hp a0 - miningPower (shipConfig (ship w)) \<rparr>))
          else Some a1)
     \<and> (\<forall>a2. alien (snd (frame inp w)) = Some a2 \<longrightarrow>
            drainTimer a2 = 0 \<and> stolenCargo a2 = stolenCargo a1)
     \<and> (\<forall>t. 0 \<le> cargo (ship (beforeLaser inp w)) t)
     \<and> (loot w = [] \<and> \<not> isDown inp \<longrightarrow> loot (afterLaser inp w) = [])
     \<and> (loot (afterLaser inp w) = [] \<longrightarrow> (\<forall>t. 0 \<le> cargo (ship (snd (frame inp w))) t))
     \<and> set avail = {t. cargo (ship w) t > 0} \<and> distinct avail
     \<and> ((\<forall>t. cargo (ship w) t = 0) \<longrightarrow>
          stolenCargo a1 = stolenCargo a0
          \<and> cargo (ship (beforeLaser inp w)) = cargo (ship w)
          \<and> (loot (afterLaser inp w) = [] \<longrightarrow> cargo (ship (snd (frame inp w))) = cargo (ship w)))
     \<and> ((\<exists>t. cargo (ship w) t > 0) \<longrightarrow>
          (\<exists>k < length avail.
             real k / real (length avail) \<le> random inp Steal 0 0
             \<and> random inp Steal 0 0 < (real k + 1) / real (length avail)
             \<and> cargo (ship w) (avail ! k) > 0
             \<and> cargo (ship (beforeLaser inp w))
                 = (cargo (ship w))(avail ! k := cargo (ship w) (avail ! k) - 1)
             \<and> (loot (afterLaser inp w) = [] \<longrightarrow>
                  cargo (ship (snd (frame inp w)))
                    = (cargo (ship w))(avail ! k := cargo (ship w) (avail ! k) - 1)
                  \<and> cargoTotal (cargo (ship (snd (frame inp w)))) = cargoTotal (cargo (ship w)) - 1)
             \<and> (\<forall>u. stolenCount (stolenCargo a1) u =
                      (if u = avail ! k then stolenCount (stolenCargo a0) u + 1
                       else stolenCount (stolenCargo a0) u))))"
proof -
  let ?w1 = "snd (physics inp w)"
  let ?v = "spawnAlien inp (cameraFollow inp (?w1\<lparr> ship := idleFuel (ship ?w1) \<rparr>))"
  let ?wl = "beforeLaser inp w"
  let ?p = "miningPower (shipConfig (ship w))"
  have b: "?wl = updateAlien inp ?v"
    by (simp add: beforeLaser_def preCombat_def)
  have go: "\<not> gameOverCheck (ship ?w1)"
    using assms(2) by (simp add: frame_over_iff)
  have va: "alien ?v = Some a0"
    using assms(1) by (simp add: spawnAlien_def)
  have vc: "cargo (ship ?v) = cargo (ship w)"
    by simp
  have vt: "drainTick (ship ?v) a0"
    using assms(3) drainTick_position [of "ship ?v" "ship ?w1" a0] by simp
  have vn: "\<forall>t. 0 \<le> cargo (ship ?v) t"
    using assms(6) by simp
  have vav: "avail = filter (\<lambda>t. cargo (ship ?v) t > 0) cargoKeys"
    using assms(7) by simp
  from updateAlien_tick [OF va vt assms(4) assms(5) vn vav, folded b, unfolded vc]
  obtain a1 where a1: "alien ?wl = Some a1" "drainTimer a1 = 0" "hp a1 = hp a0"
    and nn: "\<forall>t. 0 \<le> cargo (ship ?wl) t"
    and av: "set avail = {t. cargo (ship w) t > 0}" "distinct avail"
    and empty: "(\<forall>t. cargo (ship w) t = 0) \<longrightarrow>
          cargo (ship ?wl) = cargo (ship w) \<and> stolenCargo a1 = stolenCargo a0"
    and steal: "(\<exists>t. cargo (ship w) t > 0) \<longrightarrow>
          (\<exists>k < length avail.
             real k / real (length avail) \<le> random inp Steal 0 0
             \<and> random inp Steal 0 0 < (real k + 1) / real (length avail)
             \<and> cargo (ship w) (avail ! k) > 0
             \<and> cargo (ship ?wl) = (cargo (ship w))(avail ! k := cargo (ship w) (avail ! k) - 1)
             \<and> cargoTotal (cargo (ship ?wl)) = cargoTotal (cargo (ship w)) - 1
             \<and> (\<forall>u. stolenCount (stolenCargo a1) u =
                      (if u = avail ! k then stolenCount (stolenCargo a0) u + 1
                       else stolenCount (stolenCargo a0) u)))"
    by blast
  have cfg: "shipConfig (ship ?wl) = shipConfig (ship w)"
    by (simp add: beforeLaser_def)
  have al: "alien (snd (frame inp w)) =
         (if frameAttack inp w
          then (if hp a0 - ?p \<le> 0 then None else Some (a1\<lparr> hp := hp a0 - ?p \<rparr>))
          else Some a1)"
    using laser_alien_after [of inp ?wl, unfolded cfg] go a1
    by (simp add: frame_alien afterLaser_def frameAttack_eq)
  have al2: "\<forall>a2. alien (snd (frame inp w)) = Some a2 \<longrightarrow>
            drainTimer a2 = 0 \<and> stolenCargo a2 = stolenCargo a1"
    using al a1(2) by (auto split: if_splits)
  have quiet: "loot w = [] \<and> \<not> isDown inp \<longrightarrow> loot (afterLaser inp w) = []"
    by (simp add: afterLaser_def laser_idle beforeLaser_def)
  have fin: "cargo (ship (snd (frame inp w))) = cargo (ship ?wl)" if "loot (afterLaser inp w) = []"
    using that go by (simp add: frame_ship lootLogic_empty afterLaser_def)
  have nn2: "loot (afterLaser inp w) = [] \<longrightarrow> (\<forall>t. 0 \<le> cargo (ship (snd (frame inp w))) t)"
    using fin nn by simp
  have empty2: "(\<forall>t. cargo (ship w) t = 0) \<longrightarrow>
          stolenCargo a1 = stolenCargo a0
          \<and> cargo (ship ?wl) = cargo (ship w)
          \<and> (loot (afterLaser inp w) = [] \<longrightarrow> cargo (ship (snd (frame inp w))) = cargo (ship w))"
    using empty fin by simp
  have steal2: "(\<exists>t. cargo (ship w) t > 0) \<longrightarrow>
          (\<exists>k < length avail.
             real k / real (length avail) \<le> random inp Steal 0 0
             \<and> random inp Steal 0 0 < (real k + 1) / real (length avail)
             \<and> cargo (ship w) (avail ! k) > 0
             \<and> cargo (ship ?wl) = (cargo (ship w))(avail ! k := cargo (ship w) (avail ! k) - 1)
             \<and> (loot (afterLaser inp w) = [] \<longrightarrow>
                  cargo (ship (snd (frame inp w)))
                    = (cargo (ship w))(avail ! k := cargo (ship w) (avail ! k) - 1)
                  \<and> cargoTotal (cargo (ship (snd (frame inp w)))) = cargoTotal (cargo (ship w)) - 1)
             \<and> (\<forall>u. stolenCount (stolenCargo a1) u =
                      (if u = avail ! k then stolenCount (stolenCargo a0) u + 1
                       else stolenCount (stolenCargo a0) u)))"
  proof
    assume "\<exists>t. cargo (ship w) t > 0"
    with steal obtain k where k: "k < length avail"
      "real k / real (length avail) \<le> random inp Steal 0 0"
      "random inp Steal 0 0 < (real k + 1) / real (length avail)"
      "cargo (ship w) (avail ! k) > 0"
      "cargo (ship ?wl) = (cargo (ship w))(avail ! k := cargo (ship w) (avail ! k) - 1)"
      "cargoTotal (cargo (ship ?wl)) = cargoTotal (cargo (ship w)) - 1"
      "\<forall>u. stolenCount (stolenCargo a1) u =
                      (if u = avail ! k then stolenCount (stolenCargo a0) u + 1
                       else stolenCount (stolenCargo a0) u)"
      by blast
    have "loot (afterLaser inp w) = [] \<longrightarrow>
                  cargo (ship (snd (frame inp w)))
                    = (cargo (ship w))(avail ! k := cargo (ship w) (avail ! k) - 1)
                  \<and> cargoTotal (cargo (ship (snd (frame inp w)))) = cargoTotal (cargo (ship w)) - 1"
      using fin k(5) k(6) by simp
    with k show "\<exists>k < length avail.
             real k / real (length avail) \<le> random inp Steal 0 0
             \<and> random inp Steal 0 0 < (real k + 1) / real (length avail)
             \<and> cargo (ship w) (avail ! k) > 0
             \<and> cargo (ship ?wl) = (cargo (ship w))(avail ! k := cargo (ship w) (avail ! k) - 1)
             \<and> (loot (afterLaser inp w) = [] \<longrightarrow>
                  cargo (ship (snd (frame inp w)))
                    = (cargo (ship w))(avail ! k := cargo (ship w) (avail ! k) - 1)
                  \<and> cargoTotal (cargo (ship (snd (frame inp w)))) = cargoTotal (cargo (ship w)) - 1)
             \<and> (\<forall>u. stolenCount (stolenCargo a1) u =
                      (if u = avail ! k then stolenCount (stolenCargo a0) u + 1
                       else stolenCount (stolenCargo a0) u))"
      by blast
  qed
  from a1(1) a1(2) al al2 nn quiet nn2 av empty2 steal2 show ?thesis
    by blast
qed

text \<open>
  A quiet frame of the two sample worlds: the alien sits on the ship with its timer at
  44, and the draw of one half picks the second of the two types held, gold.
\<close>

lemma drain_physics:
  "physics quietInput drainWorld = (0, drainWorld\<lparr> shake := 1.8 \<rparr>)"
  "physics quietInput emptyHoldWorld = (0, emptyHoldWorld\<lparr> shake := 1.8 \<rparr>)"
  by (simp_all add: physics_def shakeDecay_def applyRotation_def applyThrust_def applyDrag_def
      capSpeed_def updatePosition_def speedOf_def isThrusting_def Let_def
      quietInput_def drainWorld_def emptyHoldWorld_def miningWorld_def initialPlayerState_def
      INITIAL_SHIP_CONFIG_def)

lemma drain_sample:
  "fst (frame quietInput drainWorld) \<noteq> Some OnGameOver"
  "fst (frame quietInput emptyHoldWorld) \<noteq> Some OnGameOver"
  "drainTick (ship (snd (physics quietInput drainWorld))) (sampleAlien\<lparr> x := 1000, y := 0 \<rparr>)"
  "drainTick (ship (snd (physics quietInput emptyHoldWorld))) (sampleAlien\<lparr> x := 1000, y := 0 \<rparr>)"
  "\<not> frameAttack quietInput drainWorld"
  "\<not> frameAttack quietInput emptyHoldWorld"
proof -
  have q: "\<not> isDown quietInput"
    by (simp add: quietInput_def)
  show "fst (frame quietInput drainWorld) \<noteq> Some OnGameOver"
    "fst (frame quietInput emptyHoldWorld) \<noteq> Some OnGameOver"
    unfolding frame_over_iff drain_physics
    by (simp_all add: gameOverCheck_def drainWorld_def emptyHoldWorld_def miningWorld_def)
  show "drainTick (ship (snd (physics quietInput drainWorld))) (sampleAlien\<lparr> x := 1000, y := 0 \<rparr>)"
    "drainTick (ship (snd (physics quietInput emptyHoldWorld))) (sampleAlien\<lparr> x := 1000, y := 0 \<rparr>)"
    unfolding drainTick_iff drain_physics
    by (simp_all add: alienDistance_def ALIEN_DRAIN_RANGE_def ALIEN_DRAIN_INTERVAL_def
        drainWorld_def emptyHoldWorld_def miningWorld_def sampleAlien_def)
  show "\<not> frameAttack quietInput drainWorld" "\<not> frameAttack quietInput emptyHoldWorld"
    using q by (simp_all add: frameAttack_eq)
qed

theorem drain_tick_witness:
  "cargo (ship drainWorld) = (\<lambda>t. 0)(IRON := 2, GOLD := 1)
   \<and> alien drainWorld = Some (sampleAlien\<lparr> x := 1000, y := 0 \<rparr>)
   \<and> drainTimer (sampleAlien\<lparr> x := 1000, y := 0 \<rparr>) = 44
   \<and> stolenCargo (sampleAlien\<lparr> x := 1000, y := 0 \<rparr>) = []
   \<and> drainTick (ship (snd (physics quietInput drainWorld))) (sampleAlien\<lparr> x := 1000, y := 0 \<rparr>)
   \<and> fst (frame quietInput drainWorld) \<noteq> Some OnGameOver
   \<and> random quietInput Steal 0 0 = 1 / 2
   \<and> cargo (ship (snd (frame quietInput drainWorld))) = (\<lambda>t. 0)(IRON := 2, GOLD := 0)
   \<and> (\<exists>a. alien (snd (frame quietInput drainWorld)) = Some a
          \<and> drainTimer a = 0
          \<and> stolenCount (stolenCargo a) IRON = 0
          \<and> stolenCount (stolenCargo a) SILICON = 0
          \<and> stolenCount (stolenCargo a) GOLD = 1
          \<and> stolenCount (stolenCargo a) KRONOS = 0)
   \<and> cargo (ship emptyHoldWorld) = (\<lambda>t. 0)
   \<and> alien emptyHoldWorld = Some (sampleAlien\<lparr> x := 1000, y := 0 \<rparr>)
   \<and> cargo (ship (snd (frame quietInput emptyHoldWorld))) = (\<lambda>t. 0)
   \<and> (\<exists>a. alien (snd (frame quietInput emptyHoldWorld)) = Some a
          \<and> drainTimer a = 0 \<and> stolenCargo a = [])"
proof -
  let ?a = "sampleAlien\<lparr> x := 1000, y := 0 \<rparr>"
  have v: "cargo (ship drainWorld) = (\<lambda>t. 0)(IRON := 2, GOLD := 1)"
    "alien drainWorld = Some ?a"
    "cargo (ship emptyHoldWorld) = (\<lambda>t. 0)"
    "alien emptyHoldWorld = Some ?a"
    "drainTimer ?a = 44" "stolenCargo ?a = []"
    "random quietInput Steal 0 0 = 1 / 2"
    "loot drainWorld = []" "loot emptyHoldWorld = []" "\<not> isDown quietInput"
    by (simp_all add: drainWorld_def emptyHoldWorld_def miningWorld_def sampleAlien_def
        quietInput_def initialPlayerState_def)
  have r: "0 \<le> random quietInput Steal 0 0" "random quietInput Steal 0 0 < 1"
    by (simp_all add: v)
  have n: "\<forall>t. 0 \<le> cargo (ship drainWorld) t" "\<forall>t. 0 \<le> cargo (ship emptyHoldWorld) t"
    by (simp_all add: v)
  have avd: "[IRON, GOLD] = filter (\<lambda>t. cargo (ship drainWorld) t > 0) cargoKeys"
    by (simp add: v cargoKeys_def)
  have ave: "[] = filter (\<lambda>t. cargo (ship emptyHoldWorld) t > 0) cargoKeys"
    by (simp add: v cargoKeys_def)
  from drain_tick [OF v(2) drain_sample(1) drain_sample(3) r n(1) avd]
  obtain a1 where d: "alien (snd (frame quietInput drainWorld)) =
         (if frameAttack quietInput drainWorld
          then (if hp ?a - miningPower (shipConfig (ship drainWorld)) \<le> 0 then None
                else Some (a1\<lparr> hp := hp ?a - miningPower (shipConfig (ship drainWorld)) \<rparr>))
          else Some a1)"
      "drainTimer a1 = 0"
      "loot drainWorld = [] \<and> \<not> isDown quietInput
         \<longrightarrow> loot (afterLaser quietInput drainWorld) = []"
      "(\<exists>t. cargo (ship drainWorld) t > 0) \<longrightarrow>
          (\<exists>k < length [IRON, GOLD].
             real k / real (length [IRON, GOLD]) \<le> random quietInput Steal 0 0
             \<and> random quietInput Steal 0 0 < (real k + 1) / real (length [IRON, GOLD])
             \<and> cargo (ship drainWorld) ([IRON, GOLD] ! k) > 0
             \<and> cargo (ship (beforeLaser quietInput drainWorld))
                 = (cargo (ship drainWorld))
                     ([IRON, GOLD] ! k := cargo (ship drainWorld) ([IRON, GOLD] ! k) - 1)
             \<and> (loot (afterLaser quietInput drainWorld) = [] \<longrightarrow>
                  cargo (ship (snd (frame quietInput drainWorld)))
                    = (cargo (ship drainWorld))
                        ([IRON, GOLD] ! k := cargo (ship drainWorld) ([IRON, GOLD] ! k) - 1)
                  \<and> cargoTotal (cargo (ship (snd (frame quietInput drainWorld))))
                      = cargoTotal (cargo (ship drainWorld)) - 1)
             \<and> (\<forall>u. stolenCount (stolenCargo a1) u =
                      (if u = [IRON, GOLD] ! k then stolenCount (stolenCargo ?a) u + 1
                       else stolenCount (stolenCargo ?a) u)))"
    by blast
  have da: "alien (snd (frame quietInput drainWorld)) = Some a1"
    using d(1) drain_sample(5) by simp
  have dl: "loot (afterLaser quietInput drainWorld) = []"
    using d(3) v by simp
  have "\<exists>t. cargo (ship drainWorld) t > 0"
    by (rule exI [of _ IRON]) (simp add: v)
  with d(4) obtain k where k: "k < 2" "real k / 2 \<le> 1 / 2" "1 / 2 < (real k + 1) / 2"
    and kc: "loot (afterLaser quietInput drainWorld) = [] \<longrightarrow>
                  cargo (ship (snd (frame quietInput drainWorld)))
                    = (cargo (ship drainWorld))
                        ([IRON, GOLD] ! k := cargo (ship drainWorld) ([IRON, GOLD] ! k) - 1)"
    and ks: "\<forall>u. stolenCount (stolenCargo a1) u =
                      (if u = [IRON, GOLD] ! k then stolenCount (stolenCargo ?a) u + 1
                       else stolenCount (stolenCargo ?a) u)"
    by (auto simp: v)
  from k have k1: "k = 1" by (cases k) simp_all
  have dc: "cargo (ship (snd (frame quietInput drainWorld))) = (\<lambda>t. 0)(IRON := 2, GOLD := 0)"
    using kc dl by (simp add: k1 v)
  have ds: "stolenCount (stolenCargo a1) IRON = 0" "stolenCount (stolenCargo a1) SILICON = 0"
    "stolenCount (stolenCargo a1) GOLD = 1" "stolenCount (stolenCargo a1) KRONOS = 0"
    using ks by (simp_all add: k1 v stolenCount_def)
  from drain_tick [OF v(4) drain_sample(2) drain_sample(4) r n(2) ave]
  obtain b1 where e: "alien (snd (frame quietInput emptyHoldWorld)) =
         (if frameAttack quietInput emptyHoldWorld
          then (if hp ?a - miningPower (shipConfig (ship emptyHoldWorld)) \<le> 0 then None
                else Some (b1\<lparr> hp := hp ?a - miningPower (shipConfig (ship emptyHoldWorld)) \<rparr>))
          else Some b1)"
      "drainTimer b1 = 0"
      "loot emptyHoldWorld = [] \<and> \<not> isDown quietInput
         \<longrightarrow> loot (afterLaser quietInput emptyHoldWorld) = []"
      "(\<forall>t. cargo (ship emptyHoldWorld) t = 0) \<longrightarrow>
          stolenCargo b1 = stolenCargo ?a
          \<and> cargo (ship (beforeLaser quietInput emptyHoldWorld)) = cargo (ship emptyHoldWorld)
          \<and> (loot (afterLaser quietInput emptyHoldWorld) = [] \<longrightarrow>
               cargo (ship (snd (frame quietInput emptyHoldWorld))) = cargo (ship emptyHoldWorld))"
    by blast
  have ea: "alien (snd (frame quietInput emptyHoldWorld)) = Some b1"
    using e(1) drain_sample(6) by simp
  have el: "loot (afterLaser quietInput emptyHoldWorld) = []"
    using e(3) v by simp
  have ec: "stolenCargo b1 = []"
    "cargo (ship (snd (frame quietInput emptyHoldWorld))) = (\<lambda>t. 0)"
    using e(4) el by (simp_all add: v)
  from v drain_sample(1) drain_sample(3) dc da d(2) ds ea e(2) ec show ?thesis
    by simp
qed

end
